theory Spec2Isabelle
  imports Complex_Main "HOL-Library.AList"
begin

section \<open>Python values, exceptions and the retry decorator\<close>

text \<open>
  The service is written in Python. Dynamically typed values (\<open>Dict[str, Any]\<close>) are
  the datatype \<open>pyval\<close>; a dictionary is an association list in insertion order, read
  with \<open>map_of\<close> and written with \<open>AList.update\<close> (an existing key keeps its place, a
  new key goes to the end, as in Python). An exception is a value of \<open>py_error\<close>; a call
  that may raise returns \<open>py_error + 'a\<close>, and a call that may never return wraps that in
  \<open>option\<close>, with \<open>None\<close> for "does not return".
\<close>

datatype pyval =
    PNone
  | PBool bool
  | PInt int
  | PStr string
  | PList "pyval list"
  | PDict "(string \<times> pyval) list"

type_synonym pydict = "(string \<times> pyval) list"

text \<open>\<open>bool(v)\<close>: the truth value Python gives a value in \<open>if v\<close> and \<open>not v\<close>.\<close>

fun truthy :: "pyval \<Rightarrow> bool" where
  "truthy PNone = False"
| "truthy (PBool b) = b"
| "truthy (PInt i) = (i \<noteq> 0)"
| "truthy (PStr s) = (s \<noteq> [])"
| "truthy (PList xs) = (xs \<noteq> [])"
| "truthy (PDict kvs) = (kvs \<noteq> [])"

datatype py_type = NoneType | T_bool | T_int | T_str | T_list | T_dict

fun type_of :: "pyval \<Rightarrow> py_type" where
  "type_of PNone = NoneType"
| "type_of (PBool b) = T_bool"
| "type_of (PInt i) = T_int"
| "type_of (PStr s) = T_str"
| "type_of (PList xs) = T_list"
| "type_of (PDict kvs) = T_dict"

text \<open>\<open>isinstance(v, t)\<close> for the built-in types: \<open>bool\<close> is a subclass of \<open>int\<close>.\<close>

definition isinstance :: "pyval \<Rightarrow> py_type \<Rightarrow> bool" where
  "isinstance v t = (type_of v = t \<or> (type_of v = T_bool \<and> t = T_int))"

text \<open>The text of \<open>f"{type(v)}"\<close>.\<close>

fun type_repr :: "py_type \<Rightarrow> string" where
  "type_repr NoneType = ''<class 'NoneType'>''"
| "type_repr T_bool = ''<class 'bool'>''"
| "type_repr T_int = ''<class 'int'>''"
| "type_repr T_str = ''<class 'str'>''"
| "type_repr T_list = ''<class 'list'>''"
| "type_repr T_dict = ''<class 'dict'>''"

text \<open>
  The exception classes the code raises or catches. \<open>ValidationError\<close> is pydantic's, a
  subclass of \<open>ValueError\<close>, carrying the messages of the validators that failed.
  \<open>ProviderError\<close> stands for any other subclass of \<open>Exception\<close> that an external
  client raises. \<open>RetryError\<close> is what tenacity raises when it gives up; it carries the
  exception of the last attempt.
\<close>

datatype py_error =
    ValueError string
  | ValidationError "string list"
  | RuntimeError string
  | KeyError string
  | TypeError string
  | AttributeError string
  | ProviderError string
  | RetryError py_error

text \<open>\<open>except ValueError\<close> catches \<open>ValueError\<close> and its subclasses.\<close>

fun is_ValueError :: "py_error \<Rightarrow> bool" where
  "is_ValueError (ValueError m) = True"
| "is_ValueError (ValidationError ms) = True"
| "is_ValueError e = False"

text \<open>
  \<open>str(e)\<close>, used where the code builds a message from a caught exception. It is the
  message for the exceptions raised with one; the three other cases shorten what
  Python prints (the quoted key, pydantic's report, tenacity's \<open>repr\<close> of the attempt).
\<close>

fun err_str :: "py_error \<Rightarrow> string" where
  "err_str (ValueError m) = m"
| "err_str (ValidationError ms) = concat ms"
| "err_str (RuntimeError m) = m"
| "err_str (KeyError k) = k"
| "err_str (TypeError m) = m"
| "err_str (AttributeError m) = m"
| "err_str (ProviderError m) = m"
| "err_str (RetryError e) = ''RetryError['' @ err_str e @ '']''"

text \<open>
  \<open>str.isspace\<close> on one character, for code points below 256, and \<open>str.strip()\<close>.
\<close>

definition py_isspace :: "char \<Rightarrow> bool" where
  "py_isspace c = (of_char c \<in> set [9, 10, 11, 12, 13, 28, 29, 30, 31, 32, 133, 160 :: nat])"

definition strip :: "string \<Rightarrow> string" where
  "strip s = rev (dropWhile py_isspace (rev (dropWhile py_isspace s)))"

text \<open>
  tenacity's \<open>@retry\<close>. With no \<open>retry=\<close> argument it retries on every exception; with
  no \<open>reraise=True\<close> it raises \<open>RetryError\<close> when the stop condition holds after a
  failed attempt. An attempt is a function of the attempt number (from 1) and the
  state; the waits between attempts take time and change nothing else.
  \<open>retry_loop r k f\<close> runs attempt \<open>k\<close> with \<open>r\<close> further attempts allowed.
\<close>

type_synonym ('w, 'a) attempt = "nat \<Rightarrow> 'w \<Rightarrow> ((py_error + 'a) \<times> 'w) option"

fun retry_loop :: "nat \<Rightarrow> nat \<Rightarrow> ('w, 'a) attempt \<Rightarrow> 'w \<Rightarrow> ((py_error + 'a) \<times> 'w) option" where
  "retry_loop 0 k f w =
     (case f k w of
        None \<Rightarrow> None
      | Some (Inr x, w') \<Rightarrow> Some (Inr x, w')
      | Some (Inl e, w') \<Rightarrow> Some (Inl (RetryError e), w'))"
| "retry_loop (Suc r) k f w =
     (case f k w of
        None \<Rightarrow> None
      | Some (Inr x, w') \<Rightarrow> Some (Inr x, w')
      | Some (Inl e, w') \<Rightarrow> retry_loop r (Suc k) f w')"

text \<open>\<open>@retry(stop=stop_after_attempt(n))\<close>: at most \<open>n\<close> attempts.\<close>

definition stop_after_attempt :: "nat \<Rightarrow> ('w, 'a) attempt \<Rightarrow> 'w \<Rightarrow> ((py_error + 'a) \<times> 'w) option" where
  "stop_after_attempt n f w = retry_loop (n - 1) 1 f w"

text \<open>
  \<open>@retry(wait=...)\<close> with no \<open>stop=\<close>: tenacity's default is \<open>stop_never\<close>, so the
  call is repeated until an attempt returns, and no exception ever leaves it.
\<close>

partial_function (option) retry_forever ::
  "('w, 'a) attempt \<Rightarrow> nat \<Rightarrow> 'w \<Rightarrow> ('a \<times> 'w) option" where
  "retry_forever f k w =
     (case f k w of
        None \<Rightarrow> None
      | Some (Inr x, w') \<Rightarrow> Some (x, w')
      | Some (Inl e, w') \<Rightarrow> retry_forever f (Suc k) w')"

section \<open>Language model adapter (core/llm.py)\<close>

text \<open>
  \<open>LLMRequest\<close> is a pydantic model; constructing it runs the three validators and
  raises one \<open>ValidationError\<close> with the messages of those that failed. The prompt
  stored is the stripped one. Temperatures are floats, modelled as reals.
\<close>

record LLMRequest =
  prompt :: string
  temperature :: "real option"
  max_tokens :: "int option"
  request_id :: "string option"

definition validate_prompt :: "string \<Rightarrow> string + string" where
  "validate_prompt v =
     (if v = [] \<or> strip v = [] then Inl ''Prompt cannot be empty'' else Inr (strip v))"

definition validate_temperature :: "real option \<Rightarrow> string + real option" where
  "validate_temperature v =
     (case v of
        None \<Rightarrow> Inr None
      | Some t \<Rightarrow> if 0 \<le> t \<and> t \<le> 1 then Inr v
                  else Inl ''Temperature must be between 0 and 1'')"

definition validate_max_tokens :: "int option \<Rightarrow> string + int option" where
  "validate_max_tokens v =
     (case v of
        None \<Rightarrow> Inr None
      | Some n \<Rightarrow> if n < 1 then Inl ''Max tokens must be positive'' else Inr v)"

definition failures :: "(string + 'a) \<Rightarrow> string list" where
  "failures r = (case r of Inl m \<Rightarrow> [m] | Inr x \<Rightarrow> [])"

definition new_LLMRequest ::
  "string \<Rightarrow> real option \<Rightarrow> int option \<Rightarrow> string option \<Rightarrow> py_error + LLMRequest" where
  "new_LLMRequest p t m rid =
     (case (validate_prompt p, validate_temperature t, validate_max_tokens m) of
        (Inr p', Inr t', Inr m') \<Rightarrow>
          Inr \<lparr>prompt = p', temperature = t', max_tokens = m', request_id = rid\<rparr>
      | (rp, rt, rm) \<Rightarrow> Inl (ValidationError (failures rp @ failures rt @ failures rm)))"

text \<open>
  What \<open>generate_text\<close> leaves behind: the two labels of the failure counter
  \<open>LLM_REQUEST_FAILURES\<close> it increments, and the calls it made to the provider
  (\<open>OpenAIService.create_completion\<close>), oldest first. The provider is a parameter: the
  outcome of its call number \<open>n\<close> (from 0) on the given arguments. The semaphore
  around the provider call has ten permits and never blocks a single caller.
\<close>

record llm_world =
  validation_error :: nat
  service_error :: nat
  completion_calls :: "(string \<times> real option \<times> int option) list"

type_synonym completion_provider =
  "nat \<Rightarrow> string \<Rightarrow> real option \<Rightarrow> int option \<Rightarrow> py_error + string"

text \<open>One run of the body of \<open>LanguageModel.generate_text\<close> (lines 157-217).\<close>

definition generate_text_attempt ::
  "completion_provider \<Rightarrow> string \<Rightarrow> real option \<Rightarrow> int option \<Rightarrow> string option
     \<Rightarrow> (llm_world, string) attempt" where
  "generate_text_attempt create_completion p t m rid k w =
     (case new_LLMRequest p t m rid of
        Inl e \<Rightarrow> Some (Inl e, w\<lparr>validation_error := Suc (validation_error w)\<rparr>)
      | Inr request \<Rightarrow>
          (let w1 = w\<lparr>completion_calls := completion_calls w @
                       [(prompt request, temperature request, max_tokens request)]\<rparr>
           in case create_completion (length (completion_calls w)) (prompt request)
                     (temperature request) (max_tokens request) of
                Inr completion \<Rightarrow> Some (Inr completion, w1)
              | Inl e \<Rightarrow>
                  if is_ValueError e
                  then Some (Inl e, w1\<lparr>validation_error := Suc (validation_error w1)\<rparr>)
                  else Some (Inl (RuntimeError (''Text generation failed: '' @ err_str e)),
                             w1\<lparr>service_error := Suc (service_error w1)\<rparr>)))"

text \<open>
  \<open>generate_text\<close> is that body under
  \<open>@retry(wait=wait_exponential(...), stop=stop_after_attempt(3))\<close>.
\<close>

definition generate_text ::
  "completion_provider \<Rightarrow> string \<Rightarrow> real option \<Rightarrow> int option \<Rightarrow> string option
     \<Rightarrow> llm_world \<Rightarrow> ((py_error + string) \<times> llm_world) option" where
  "generate_text create_completion p t m rid w =
     stop_after_attempt 3 (generate_text_attempt create_completion p t m rid) w"

section \<open>Embedding service (core/embeddings.py)\<close>

text \<open>Decimal digits of a number, for the messages that print one.\<close>

fun show_nat :: "nat \<Rightarrow> string" where
  "show_nat n =
     (if n < 10 then [char_of (48 + n)] else show_nat (n div 10) @ [char_of (48 + n mod 10)])"

text \<open>
  \<open>EmbeddingService.generate_embedding\<close>. The state is the list of texts sent to the
  provider (\<open>OpenAIService.create_embedding\<close>), and the provider is again a parameter
  indexed by the call number. Every exception of the body, the one for an empty text
  included, is caught and raised again as \<open>RuntimeError\<close> (lines 94-96).
\<close>

type_synonym embedding = "real list"
type_synonym embedding_provider = "nat \<Rightarrow> string \<Rightarrow> py_error + embedding"

definition generate_embedding_attempt ::
  "embedding_provider \<Rightarrow> nat \<Rightarrow> string \<Rightarrow> (string list, embedding) attempt" where
  "generate_embedding_attempt create_embedding embedding_dimension text k calls =
     (if text = []
      then Some (Inl (RuntimeError (''Failed to generate embedding: '' @
                   ''Input text must be a non-empty string'')), calls)
      else case create_embedding (length calls) text of
             Inl e \<Rightarrow>
               Some (Inl (RuntimeError (''Failed to generate embedding: '' @ err_str e)),
                     calls @ [text])
           | Inr emb \<Rightarrow>
               if length emb \<noteq> embedding_dimension
               then Some (Inl (RuntimeError (''Failed to generate embedding: '' @
                            ''Generated embedding dimension '' @ show_nat (length emb) @
                            '' does not match expected dimension '' @
                            show_nat embedding_dimension)), calls @ [text])
               else Some (Inr emb, calls @ [text]))"

text \<open>
  The decorator is \<open>@retry(wait=wait_exponential(...))\<close>, with no stop condition
  (line 59).
\<close>

definition generate_embedding ::
  "embedding_provider \<Rightarrow> nat \<Rightarrow> string \<Rightarrow> string list \<Rightarrow> (embedding \<times> string list) option" where
  "generate_embedding create_embedding embedding_dimension text calls =
     retry_forever (generate_embedding_attempt create_embedding embedding_dimension text) 1 calls"

text \<open>
  The vector store adapter, \<open>PineconeService.upsert_vectors\<close> (services/pinecone.py,
  lines 61-97). The state is the list of batches sent to the index, and the index
  client's \<open>upsert\<close> is a parameter indexed by the call number. The body returns
  \<open>True\<close> or raises \<open>RuntimeError\<close>, and the decorator is
  \<open>@retry(wait=wait_exponential(...))\<close>, with no stop condition.
\<close>

type_synonym text_item = "string \<times> string \<times> pydict"
type_synonym vector_item = "string \<times> embedding \<times> pydict"
type_synonym index_provider = "nat \<Rightarrow> vector_item list \<Rightarrow> py_error + unit"

definition upsert_vectors_attempt ::
  "index_provider \<Rightarrow> nat \<Rightarrow> vector_item list \<Rightarrow> (vector_item list list, bool) attempt" where
  "upsert_vectors_attempt index_upsert dimension vector_data k calls =
     (case find (\<lambda>v. length (fst (snd v)) \<noteq> dimension) vector_data of
        Some v \<Rightarrow>
          Some (Inl (RuntimeError (''Failed to upsert vectors: '' @ ''Vector dimension '' @
                  show_nat (length (fst (snd v))) @ '' does not match index dimension '' @
                  show_nat dimension)), calls)
      | None \<Rightarrow>
          (case index_upsert (length calls) vector_data of
             Inl e \<Rightarrow>
               Some (Inl (RuntimeError (''Failed to upsert vectors: '' @ err_str e)),
                     calls @ [vector_data])
           | Inr u \<Rightarrow> Some (Inr True, calls @ [vector_data])))"

text \<open>
  An adapter, as \<open>store_embeddings\<close> uses one: called with a batch, it returns a
  \<open>bool\<close>, raises, or does not return. \<open>upsert_vectors\<close> is the repository's adapter.
\<close>

type_synonym 'w adapter = "'w \<Rightarrow> vector_item list \<Rightarrow> ((py_error + bool) \<times> 'w) option"

definition upsert_vectors :: "index_provider \<Rightarrow> nat \<Rightarrow> (vector_item list list) adapter" where
  "upsert_vectors index_upsert dimension calls vector_data =
     (case retry_forever (upsert_vectors_attempt index_upsert dimension vector_data) 1 calls of
        None \<Rightarrow> None
      | Some (r, calls') \<Rightarrow> Some (Inr r, calls'))"

text \<open>
  \<open>PineconeService.query\<close> (services/pinecone.py, lines 99-148). The state is the
  list of queries sent to the index, and the index client's \<open>query\<close> is a parameter
  indexed by the call number; a match is its id, score and metadata. The decorator
  is again \<open>@retry(wait=wait_exponential(...))\<close>, with no stop condition.
\<close>

type_synonym match = "string \<times> pyval \<times> pyval"
type_synonym query_provider = "nat \<Rightarrow> embedding \<Rightarrow> int \<Rightarrow> py_error + match list"

definition format_match :: "match \<Rightarrow> pyval" where
  "format_match m = PDict [(''id'', PStr (fst m)), (''score'', fst (snd m)), (''metadata'', snd (snd m))]"

definition query_attempt ::
  "query_provider \<Rightarrow> nat \<Rightarrow> embedding \<Rightarrow> int \<Rightarrow> ((embedding \<times> int) list, pyval list) attempt" where
  "query_attempt index_query dimension query_vector top_k k queries =
     (if length query_vector \<noteq> dimension
      then Some (Inl (RuntimeError (''Failed to query vectors: '' @ ''Query vector dimension '' @
                   show_nat (length query_vector) @ '' does not match index dimension '' @
                   show_nat dimension)), queries)
      else case index_query (length queries) query_vector top_k of
             Inl e \<Rightarrow>
               Some (Inl (RuntimeError (''Failed to query vectors: '' @ err_str e)),
                     queries @ [(query_vector, top_k)])
           | Inr matches \<Rightarrow>
               Some (Inr (map format_match matches), queries @ [(query_vector, top_k)]))"

definition query ::
  "query_provider \<Rightarrow> nat \<Rightarrow> embedding \<Rightarrow> int \<Rightarrow> (embedding \<times> int) list
     \<Rightarrow> (pyval list \<times> (embedding \<times> int) list) option" where
  "query index_query dimension query_vector top_k queries =
     retry_forever (query_attempt index_query dimension query_vector top_k) 1 queries"

text \<open>
  \<open>EmbeddingService.search_similar\<close> (lines 144-195), with no filter. The state of
  the embedding service is what it has sent to its two providers. The method has no
  decorator of its own: it raises \<open>RuntimeError\<close> for an empty text or a \<open>top_k\<close>
  below 1, and otherwise waits for \<open>generate_embedding\<close> and \<open>query\<close>.
\<close>

record embedding_world =
  embedding_calls :: "string list"
  index_queries :: "(embedding \<times> int) list"

definition search_similar ::
  "embedding_provider \<Rightarrow> query_provider \<Rightarrow> nat \<Rightarrow> string \<Rightarrow> int \<Rightarrow> embedding_world
     \<Rightarrow> ((py_error + pyval list) \<times> embedding_world) option" where
  "search_similar create_embedding index_query dimension query_text top_k w =
     (if query_text = []
      then Some (Inl (RuntimeError (''Failed to execute similarity search: '' @
                   ''Query text cannot be empty'')), w)
      else if top_k < 1
      then Some (Inl (RuntimeError (''Failed to execute similarity search: '' @
                   ''top_k must be positive'')), w)
      else case generate_embedding create_embedding dimension query_text (embedding_calls w) of
             None \<Rightarrow> None
           | Some (query_embedding, calls') \<Rightarrow>
               (case query index_query dimension query_embedding top_k (index_queries w) of
                  None \<Rightarrow> None
                | Some (found, queries') \<Rightarrow>
                    Some (Inr found, \<lparr>embedding_calls = calls', index_queries = queries'\<rparr>)))"

text \<open>
  \<open>EmbeddingService.store_embeddings\<close> (lines 98-142). Its two collaborators are
  parameters: \<open>gen\<close> is the outcome of \<open>self.generate_embedding\<close> as the loop sees it,
  and \<open>upsert\<close> is the adapter, with its state \<open>w\<close>.
\<close>

definition BATCH_SIZE :: nat where
  "BATCH_SIZE = 100"

fun embed_batch :: "(string \<Rightarrow> py_error + embedding) \<Rightarrow> text_item list \<Rightarrow> py_error + vector_item list" where
  "embed_batch gen [] = Inr []"
| "embed_batch gen ((ident, text, meta) # rest) =
     (case gen text of
        Inl e \<Rightarrow> Inl e
      | Inr emb \<Rightarrow>
          (case embed_batch gen rest of
             Inl e \<Rightarrow> Inl e
           | Inr vs \<Rightarrow> Inr ((ident, emb, meta) # vs)))"

function store_loop ::
  "(string \<Rightarrow> py_error + embedding) \<Rightarrow> 'w adapter \<Rightarrow> text_item list \<Rightarrow> nat \<Rightarrow> bool \<Rightarrow> 'w
     \<Rightarrow> ((py_error + bool) \<times> 'w) option" where
  "store_loop gen upsert text_data i success w =
     (if i < length text_data then
        (case embed_batch gen (take BATCH_SIZE (drop i text_data)) of
           Inl e \<Rightarrow> Some (Inl e, w)
         | Inr vector_data \<Rightarrow>
             (case upsert w vector_data of
                None \<Rightarrow> None
              | Some (Inl e, w') \<Rightarrow> Some (Inl e, w')
              | Some (Inr batch_success, w') \<Rightarrow>
                  store_loop gen upsert text_data (i + BATCH_SIZE)
                    (success \<and> batch_success) w'))
      else Some (Inr success, w))"
  by pat_completeness auto
termination
  by (relation "measure (\<lambda>(gen, upsert, text_data, i, success, w). length text_data - i)")
     (auto simp: BATCH_SIZE_def)

definition store_embeddings ::
  "(string \<Rightarrow> py_error + embedding) \<Rightarrow> 'w adapter \<Rightarrow> text_item list \<Rightarrow> 'w
     \<Rightarrow> ((py_error + bool) \<times> 'w) option" where
  "store_embeddings gen upsert text_data w =
     (if text_data = []
      then Some (Inl (RuntimeError (''Failed to store embeddings: '' @
                   ''No text data provided for embedding storage'')), w)
      else case store_loop gen upsert text_data 0 True w of
             None \<Rightarrow> None
           | Some (Inl e, w') \<Rightarrow>
               Some (Inl (RuntimeError (''Failed to store embeddings: '' @ err_str e)), w')
           | Some (Inr success, w') \<Rightarrow> Some (Inr success, w'))"

section \<open>Built-ins and collaborators of the agent and its skills\<close>

text \<open>
  What the skills and the agent call outside their own code, as it answers during
  one attempt of one operation: Python's \<open>str()\<close> and \<open>str.format\<close>;
  \<open>datetime.fromisoformat\<close>, giving the naive time a text denotes in microseconds, or
  the exception raised for a value that is no such text (for a time with an offset,
  the \<open>TypeError\<close> of subtracting it from \<open>datetime.now()\<close>); \<open>datetime.now()\<close> in
  microseconds and its \<open>isoformat()\<close>; the monotonic clock in seconds; the outcome of
  \<open>LanguageModel.generate_text\<close> as a skill sees it; and what the embedding service
  of the agent is built on: the two providers of \<open>generate_embedding\<close> and \<open>query\<close>
  above and the configured vector dimension. The metrics counters and the tracing
  spans are write-only and left out.
\<close>

record services =
  py_str :: "pyval \<Rightarrow> string"
  py_format :: "string \<Rightarrow> pydict \<Rightarrow> py_error + string"
  fromisoformat :: "pyval \<Rightarrow> py_error + int"
  clock :: int
  isoformat :: "int \<Rightarrow> string"
  monotonic :: real
  llm_text :: "string \<Rightarrow> py_error + string"
  embedding_api :: embedding_provider
  index_api :: query_provider
  vector_dimension :: nat

section \<open>Skills and the registry (models/skills.py)\<close>

datatype SkillCategory = TEXT_PROCESSING | DECISION_MAKING | DATA_ANALYSIS | KNOWLEDGE_BASE

fun category_value :: "SkillCategory \<Rightarrow> string" where
  "category_value TEXT_PROCESSING = ''TEXT_PROCESSING''"
| "category_value DECISION_MAKING = ''DECISION_MAKING''"
| "category_value DATA_ANALYSIS = ''DATA_ANALYSIS''"
| "category_value KNOWLEDGE_BASE = ''KNOWLEDGE_BASE''"

definition SkillCategory_members :: "string list" where
  "SkillCategory_members =
     [''TEXT_PROCESSING'', ''DECISION_MAKING'', ''DATA_ANALYSIS'', ''KNOWLEDGE_BASE'']"

text \<open>
  A \<open>Skill\<close>. \<open>error_counts\<close> is the three counters, \<open>security_config\<close> the input size
  limit that the code reads, \<open>performance_metrics\<close> the time of the last successful
  execution; the two float-valued metrics (average latency, success rate) depend on
  wall-clock durations and are left out.
\<close>

record skill =
  name :: string
  description :: string
  category :: SkillCategory
  prompt_template :: "(string \<times> string) list"
  input_schema :: pydict
  output_schema :: pydict
  metadata :: pydict
  validation_errors :: nat
  execution_errors :: nat
  timeout_errors :: nat
  max_input_size :: nat
  last_execution :: "string option"

text \<open>\<open>skill.dict()\<close>, on the keys that \<open>validate_skill_config\<close> reads.\<close>

definition skill_dict :: "skill \<Rightarrow> pydict" where
  "skill_dict s =
     [(''name'', PStr (name s)),
      (''description'', PStr (description s)),
      (''category'', PStr (category_value (category s))),
      (''prompt_template'', PDict (map (\<lambda>kv. (fst kv, PStr (snd kv))) (prompt_template s))),
      (''input_schema'', PDict (input_schema s)),
      (''output_schema'', PDict (output_schema s)),
      (''metadata'', PDict (metadata s))]"

text \<open>
  \<open>validate_skill_config\<close> (lines 63-96). Testing membership of an unhashable value
  in \<open>SkillCategory.__members__\<close> raises \<open>TypeError\<close>, which the function's own
  \<open>except\<close> turns into a failed validation.
\<close>

definition validate_skill_config :: "services \<Rightarrow> pydict \<Rightarrow> bool \<times> string option" where
  "validate_skill_config svc skill_config =
     (case find (\<lambda>field. map_of skill_config field = None)
             [''name'', ''description'', ''category'', ''prompt_template''] of
        Some field \<Rightarrow> (False, Some (''Missing required field: '' @ field))
      | None \<Rightarrow>
          (case (map_of skill_config ''category'', map_of skill_config ''prompt_template'') of
             (Some cat, Some template) \<Rightarrow>
               if type_of cat = T_list \<or> type_of cat = T_dict
               then (False, Some (''Validation error: '' @ ''unhashable type''))
               else if cat \<notin> set (map PStr SkillCategory_members)
               then (False, Some (''Invalid category: '' @ py_str svc cat))
               else if type_of template \<noteq> T_dict
               then (False, Some ''Prompt template must be a dictionary'')
               else if (case map_of skill_config ''input_schema'' of
                          Some v \<Rightarrow> type_of v \<noteq> T_dict | None \<Rightarrow> False)
               then (False, Some ''Input schema must be a dictionary'')
               else if (case map_of skill_config ''output_schema'' of
                          Some v \<Rightarrow> type_of v \<noteq> T_dict | None \<Rightarrow> False)
               then (False, Some ''Output schema must be a dictionary'')
               else (True, None)
           | _ \<Rightarrow> (False, Some (''Validation error: '' @ ''missing key''))))"

text \<open>\<open>Skill.validate_inputs\<close> (lines 139-167): the size limit, then the schema.\<close>

fun check_schema :: "pydict \<Rightarrow> pydict \<Rightarrow> bool \<times> string option" where
  "check_schema [] inputs = (True, None)"
| "check_schema ((key, schema) # rest) inputs =
     (case map_of inputs key of
        None \<Rightarrow> (False, Some (''Missing required input: '' @ key))
      | Some v \<Rightarrow>
          if isinstance v (type_of schema) then check_schema rest inputs
          else (False, Some (''Invalid type for '' @ key @ '': expected '' @
                  type_repr (type_of schema) @ '', got '' @ type_repr (type_of v))))"

definition validate_inputs :: "services \<Rightarrow> skill \<Rightarrow> pydict \<Rightarrow> bool \<times> string option" where
  "validate_inputs svc s inputs =
     (let input_size = length (py_str svc (PDict inputs)) in
      if input_size > max_input_size s
      then (False, Some (''Input size exceeds limit: '' @ show_nat input_size @ '' > '' @
              show_nat (max_input_size s)))
      else check_schema (input_schema s) inputs)"

text \<open>The text \<open>f"{msg}"\<close> of an optional message.\<close>

definition opt_str :: "string option \<Rightarrow> string" where
  "opt_str m = (case m of None \<Rightarrow> ''None'' | Some t \<Rightarrow> t)"

text \<open>
  \<open>Skill.execute\<close> (lines 169-218). Every exception of the body passes through the
  \<open>except\<close> that counts an execution error and raises it again.
\<close>

definition execution_failed :: "skill \<Rightarrow> py_error \<Rightarrow> (py_error + pydict) \<times> skill" where
  "execution_failed s e = (Inl e, s\<lparr>execution_errors := Suc (execution_errors s)\<rparr>)"

definition execute :: "services \<Rightarrow> skill \<Rightarrow> pydict \<Rightarrow> (py_error + pydict) \<times> skill" where
  "execute svc s inputs =
     (case validate_inputs svc s inputs of
        (is_valid, error_msg) \<Rightarrow>
          if \<not> is_valid
          then execution_failed s (ValueError (''Input validation failed: '' @ opt_str error_msg))
          else (case map_of (prompt_template s) ''base'' of
                  None \<Rightarrow> execution_failed s (KeyError ''base'')
                | Some template \<Rightarrow>
                    (case py_format svc template inputs of
                       Inl e \<Rightarrow> execution_failed s e
                     | Inr p \<Rightarrow>
                         (case llm_text svc p of
                            Inl e \<Rightarrow> execution_failed s e
                          | Inr result \<Rightarrow>
                              (Inr [(''result'', PStr result), (''metadata'', PDict (metadata s))],
                               s\<lparr>last_execution := Some (isoformat svc (clock svc))\<rparr>)))))"

text \<open>
  The registry: the two dictionaries and the lock. \<open>threading.Lock\<close> is not
  reentrant: \<open>acquire\<close> on a held lock waits until the lock is released. A call is one
  thread of control, and nothing else runs while it waits, so \<open>acquire\<close> is a wait
  that ends only if the lock is free; on a held lock it does not return. The outcome
  of a registry call is \<open>Returns\<close> with the value and the registry after the call, or
  \<open>Deadlock\<close> with the registry as it stands where the call waits for ever.
\<close>

record registry_metrics =
  registered_at :: string
  execution_count :: nat
  error_rate :: real

record registry =
  skills :: "(string \<times> skill) list"
  metrics :: "(string \<times> registry_metrics) list"
  registry_lock :: bool

datatype 'a run = Returns 'a registry | Deadlock registry

partial_function (option) acquire :: "registry \<Rightarrow> registry option" where
  "acquire reg = (if registry_lock reg then acquire reg else Some (reg\<lparr>registry_lock := True\<rparr>))"

definition release :: "registry \<Rightarrow> registry" where
  "release reg = reg\<lparr>registry_lock := False\<rparr>"

text \<open>\<open>SkillRegistry.register_skill\<close> (lines 230-264).\<close>

definition register_skill :: "services \<Rightarrow> registry \<Rightarrow> skill \<Rightarrow> (bool \<times> string option) run" where
  "register_skill svc reg s =
     (case acquire reg of
        None \<Rightarrow> Deadlock reg
      | Some held \<Rightarrow>
          (case validate_skill_config svc (skill_dict s) of
             (is_valid, error_msg) \<Rightarrow>
               if \<not> is_valid then Returns (False, error_msg) (release held)
               else if map_of (skills held) (name s) \<noteq> None
               then Returns (False, Some (''Skill already exists: '' @ name s)) (release held)
               else Returns (True, None)
                      (release (held\<lparr>
                         skills := AList.update (name s) s (skills held),
                         metrics := AList.update (name s)
                           \<lparr>registered_at = isoformat svc (clock svc), execution_count = 0,
                            error_rate = 0\<rparr> (metrics held)\<rparr>))))"

text \<open>
  \<open>SkillRegistry.bulk_register\<close> (lines 266-296): with the lock held, the first loop
  returns at the first skill that fails validation, and the second loop calls
  \<open>register_skill\<close> for each skill.
\<close>

fun first_invalid :: "services \<Rightarrow> skill list \<Rightarrow> (string \<times> bool \<times> string option) option" where
  "first_invalid svc [] = None"
| "first_invalid svc (s # rest) =
     (case validate_skill_config svc (skill_dict s) of
        (is_valid, error_msg) \<Rightarrow>
          if \<not> is_valid then Some (name s, False, error_msg) else first_invalid svc rest)"

fun register_each ::
  "services \<Rightarrow> registry \<Rightarrow> skill list \<Rightarrow> (string \<times> bool \<times> string option) list
     \<Rightarrow> ((string \<times> bool \<times> string option) list) run" where
  "register_each svc reg [] acc = Returns acc reg"
| "register_each svc reg (s # rest) acc =
     (case register_skill svc reg s of
        Deadlock stuck \<Rightarrow> Deadlock stuck
      | Returns res reg' \<Rightarrow> register_each svc reg' rest (AList.update (name s) res acc))"

definition bulk_register ::
  "services \<Rightarrow> registry \<Rightarrow> skill list \<Rightarrow> ((string \<times> bool \<times> string option) list) run" where
  "bulk_register svc reg batch =
     (case acquire reg of
        None \<Rightarrow> Deadlock reg
      | Some held \<Rightarrow>
          (case first_invalid svc batch of
             Some failure \<Rightarrow> Returns [failure] (release held)
           | None \<Rightarrow>
               (case register_each svc held batch [] of
                  Deadlock stuck \<Rightarrow> Deadlock stuck
                | Returns acc reg' \<Rightarrow> Returns acc (release reg'))))"

text \<open>
  Modelled from the spec: \<open>SkillRegistry.get_skill\<close> is called by
  \<open>Agent.execute_skill\<close> but defined nowhere in the repository. The spec's registry
  is the set of registered skills keyed by name, and an unknown name is not found, so
  the lookup is by that key.
\<close>

definition get_skill :: "registry \<Rightarrow> string \<Rightarrow> skill option" where
  "get_skill reg key = map_of (skills reg) key"

text \<open>
  Modelled from the spec: \<open>SkillRegistry.list_skills\<close> is called by
  \<open>Agent._select_skills\<close> but defined nowhere in the repository. It is the registered
  skills, here in registration order.
\<close>

definition list_skills :: "registry \<Rightarrow> skill list" where
  "list_skills reg = map snd (skills reg)"

section \<open>The agent (core/agent.py)\<close>

text \<open>
  The circuit breaker is an object of the \<open>circuitbreaker\<close> package, built by
  \<open>circuit(failure_threshold=3, recovery_timeout=60, ...)\<close>. Its fields and its
  \<open>opened\<close> property are given here as that package defines them: a breaker counts as
  opened while its state is open and the recovery timeout has not run out. The
  package changes the fields only when the breaker wraps a call, as a decorator or as
  a context manager.
\<close>

datatype breaker_state = STATE_CLOSED | STATE_OPEN | STATE_HALF_OPEN

record circuit_breaker =
  failure_threshold :: nat
  recovery_timeout :: nat
  failure_count :: nat
  breaker_state :: breaker_state
  opened_at :: real

definition opened :: "circuit_breaker \<Rightarrow> real \<Rightarrow> bool" where
  "opened cb t =
     (breaker_state cb = STATE_OPEN \<and> 0 < opened_at cb + real (recovery_timeout cb) - t)"

record turn =
  role :: string
  content :: string
  timestamp :: string
  turn_context :: pydict

record agent =
  skill_registry :: registry
  state :: pydict
  conversation_history :: "turn list"
  circuit_breaker :: circuit_breaker
  embedding_service :: embedding_world

definition MAX_CONTEXT_LENGTH :: nat where
  "MAX_CONTEXT_LENGTH = 4096"

definition CONVERSATION_HISTORY_LIMIT :: nat where
  "CONVERSATION_HISTORY_LIMIT = 100"

text \<open>\<open>Agent.__init__\<close> (lines 60-74), without the two background tasks it starts.\<close>

definition new_agent :: "services \<Rightarrow> agent" where
  "new_agent svc =
     \<lparr>skill_registry = \<lparr>skills = [], metrics = [], registry_lock = False\<rparr>,
      state = [],
      conversation_history = [],
      circuit_breaker =
        \<lparr>failure_threshold = 3, recovery_timeout = 60, failure_count = 0,
         breaker_state = STATE_CLOSED, opened_at = monotonic svc\<rparr>,
      embedding_service = \<lparr>embedding_calls = [], index_queries = []\<rparr>\<rparr>"

text \<open>\<open>Agent._validate_security_context\<close> (lines 343-353). Times are microseconds.\<close>

definition validate_security_context :: "services \<Rightarrow> pydict \<Rightarrow> py_error + unit" where
  "validate_security_context svc security_context =
     (case find (\<lambda>field. map_of security_context field = None)
             [''user_id'', ''access_level'', ''timestamp''] of
        Some field \<Rightarrow> Inl (ValueError (''Missing required security field: '' @ field))
      | None \<Rightarrow>
          (case map_of security_context ''timestamp'' of
             None \<Rightarrow> Inl (KeyError ''timestamp'')
           | Some ts \<Rightarrow>
               (case fromisoformat svc ts of
                  Inl e \<Rightarrow> Inl e
                | Inr request_time \<Rightarrow>
                    if clock svc - request_time > 300 * 1000000
                    then Inl (ValueError ''Security context has expired'')
                    else Inr ())))"

text \<open>
  The guard \<open>if security_context:\<close> before each call of the validation: \<open>None\<close> and
  the empty dictionary skip it.
\<close>

definition check_security :: "services \<Rightarrow> pydict option \<Rightarrow> py_error + unit" where
  "check_security svc security_context =
     (case security_context of
        None \<Rightarrow> Inr ()
      | Some sc \<Rightarrow> if sc = [] then Inr () else validate_security_context svc sc)"

text \<open>\<open>Agent._update_conversation_history\<close> (lines 365-381).\<close>

definition new_turn :: "services \<Rightarrow> string \<Rightarrow> pydict option \<Rightarrow> turn" where
  "new_turn svc request ctx =
     \<lparr>role = ''user'', content = request, timestamp = isoformat svc (clock svc),
      turn_context = (case ctx of None \<Rightarrow> [] | Some c \<Rightarrow> c)\<rparr>"

definition update_conversation_history :: "services \<Rightarrow> agent \<Rightarrow> string \<Rightarrow> pydict option \<Rightarrow> agent" where
  "update_conversation_history svc a request ctx =
     (let h = conversation_history a @ [new_turn svc request ctx] in
      a\<lparr>conversation_history := (if length h > CONVERSATION_HISTORY_LIMIT then tl h else h)\<rparr>)"

text \<open>
  \<open>Agent._cleanup_state\<close> (lines 315-324): \<open>cleanup_iteration\<close> is one turn of its
  \<open>while True\<close> loop after the sleep, and \<open>cleanup_state\<close> is the loop, which has no
  exit.
\<close>

definition cleanup_iteration :: "agent \<Rightarrow> agent" where
  "cleanup_iteration a =
     (let h = conversation_history a in
      if length h > CONVERSATION_HISTORY_LIMIT
      then a\<lparr>conversation_history := drop (length h - CONVERSATION_HISTORY_LIMIT) h\<rparr>
      else a)"

partial_function (option) cleanup_state :: "agent \<Rightarrow> agent option" where
  "cleanup_state a = cleanup_state (cleanup_iteration a)"

text \<open>
  \<open>Agent.update_state\<close> (lines 244-271). The size that is checked is that of the
  update, \<open>len(str(new_state))\<close>; over the limit, the method awaits
  \<open>self._cleanup_state()\<close> before it merges.
\<close>

definition update_state :: "services \<Rightarrow> agent \<Rightarrow> pyval \<Rightarrow> (bool \<times> agent) option" where
  "update_state svc a new_state =
     (case new_state of
        PDict kvs \<Rightarrow>
          (let state_size = length (py_str svc new_state) in
           case (if state_size > MAX_CONTEXT_LENGTH then cleanup_state a else Some a) of
             None \<Rightarrow> None
           | Some a' \<Rightarrow>
               Some (True, a'\<lparr>state := fold (\<lambda>kv. AList.update (fst kv) (snd kv)) kvs (state a')\<rparr>))
      | _ \<Rightarrow> Some (False, a))"

text \<open>
  \<open>Agent.get_conversation_context\<close> (lines 273-313). \<open>subscript\<close> is \<open>v[key]\<close> with a
  string key: \<open>KeyError\<close> on a dictionary without the key, \<open>TypeError\<close> on a value that
  is no dictionary.
\<close>

definition subscript :: "pyval \<Rightarrow> string \<Rightarrow> py_error + pyval" where
  "subscript v key =
     (case v of
        PDict kvs \<Rightarrow> (case map_of kvs key of None \<Rightarrow> Inl (KeyError key) | Some x \<Rightarrow> Inr x)
      | _ \<Rightarrow> Inl (TypeError ''indices must be integers or the object is not subscriptable''))"

definition project :: "pyval \<Rightarrow> py_error + pydict" where
  "project conv =
     (case subscript conv ''metadata'' of
        Inl e \<Rightarrow> Inl e
      | Inr meta \<Rightarrow>
          (case subscript meta ''role'' of
             Inl e \<Rightarrow> Inl e
           | Inr r \<Rightarrow>
               (case subscript meta ''content'' of
                  Inl e \<Rightarrow> Inl e
                | Inr c \<Rightarrow> Inr [(''role'', r), (''content'', c)])))"

fun project_all :: "pyval list \<Rightarrow> py_error + pydict list" where
  "project_all [] = Inr []"
| "project_all (conv # rest) =
     (case project conv of
        Inl e \<Rightarrow> Inl e
      | Inr p \<Rightarrow> (case project_all rest of Inl e \<Rightarrow> Inl e | Inr ps \<Rightarrow> Inr (p # ps)))"

text \<open>
  The two calls the agent makes to its embedding service,
  \<open>self._embedding_service.generate_embedding(request)\<close> and
  \<open>self._embedding_service.search_similar(request, top_k=5)\<close>: the methods above, run
  on the agent's embedding service. Neither is a parameter: a call that does not
  return makes the caller not return.
\<close>

definition embed_request :: "services \<Rightarrow> agent \<Rightarrow> string \<Rightarrow> (embedding \<times> agent) option" where
  "embed_request svc a request =
     (case generate_embedding (embedding_api svc) (vector_dimension svc) request
             (embedding_calls (embedding_service a)) of
        None \<Rightarrow> None
      | Some (emb, calls') \<Rightarrow>
          Some (emb, a\<lparr>embedding_service := (embedding_service a)\<lparr>embedding_calls := calls'\<rparr>\<rparr>))"

definition search_request ::
  "services \<Rightarrow> agent \<Rightarrow> string \<Rightarrow> ((py_error + pyval list) \<times> agent) option" where
  "search_request svc a request =
     (case search_similar (embedding_api svc) (index_api svc) (vector_dimension svc) request 5
             (embedding_service a) of
        None \<Rightarrow> None
      | Some (r, w') \<Rightarrow> Some (r, a\<lparr>embedding_service := w'\<rparr>))"

definition get_conversation_context ::
  "services \<Rightarrow> agent \<Rightarrow> string \<Rightarrow> pydict option \<Rightarrow> (pydict list \<times> agent) option" where
  "get_conversation_context svc a request security_context =
     (case check_security svc security_context of
        Inl e \<Rightarrow> Some ([], a)
      | Inr u \<Rightarrow>
          (case embed_request svc a request of
             None \<Rightarrow> None
           | Some (request_embedding, a1) \<Rightarrow>
               (case search_request svc a1 request of
                  None \<Rightarrow> None
                | Some (Inl e, a2) \<Rightarrow> Some ([], a2)
                | Some (Inr similar_conversations, a2) \<Rightarrow>
                    (case project_all similar_conversations of
                       Inl e \<Rightarrow> Some ([], a2)
                     | Inr ctx \<Rightarrow> Some (ctx, a2)))))"

text \<open>\<open>Agent._select_skills\<close> (lines 355-363): the first three registered skills.\<close>

definition select_skills :: "agent \<Rightarrow> embedding \<Rightarrow> skill list" where
  "select_skills a request_embedding = take 3 (list_skills (skill_registry a))"

text \<open>
  \<open>Agent.execute_skill\<close> (lines 198-242). The skill object is shared with the
  registry, so what \<open>execute\<close> changes in it is written back under its key.
\<close>

definition store_skill :: "agent \<Rightarrow> string \<Rightarrow> skill \<Rightarrow> agent" where
  "store_skill a key s =
     a\<lparr>skill_registry := (skill_registry a)\<lparr>skills := AList.update key s (skills (skill_registry a))\<rparr>\<rparr>"

definition execute_skill :: "services \<Rightarrow> agent \<Rightarrow> string \<Rightarrow> pydict \<Rightarrow> (py_error + pydict) \<times> agent" where
  "execute_skill svc a skill_name inputs =
     (case get_skill (skill_registry a) skill_name of
        None \<Rightarrow> (Inl (ValueError (''Skill not found: '' @ skill_name)), a)
      | Some s \<Rightarrow>
          if opened (circuit_breaker a) (monotonic svc)
          then (Inl (RuntimeError ''Circuit breaker is open''), a)
          else (case validate_inputs svc s inputs of
                  (is_valid, error_msg) \<Rightarrow>
                    if \<not> is_valid
                    then (Inl (ValueError (''Invalid inputs: '' @ opt_str error_msg)), a)
                    else (case execute svc s inputs of
                            (r, s') \<Rightarrow> (r, store_skill a skill_name s'))))"

text \<open>
  The skill loop of \<open>process_request\<close> (lines 145-158): a skill that raises is skipped.
\<close>

fun run_skills :: "services \<Rightarrow> agent \<Rightarrow> skill list \<Rightarrow> pydict \<Rightarrow> pyval list \<Rightarrow> pyval list \<times> agent" where
  "run_skills svc a [] inputs acc = (acc, a)"
| "run_skills svc a (s # rest) inputs acc =
     (case execute_skill svc a (name s) inputs of
        (Inl e, a') \<Rightarrow> run_skills svc a' rest inputs acc
      | (Inr r, a') \<Rightarrow> run_skills svc a' rest inputs (acc @ [PDict r]))"

text \<open>
  One run of the body of \<open>Agent.process_request\<close> (lines 114-195). Every exception
  raised inside the \<open>try\<close> is caught at line 189 and raised again as \<open>RuntimeError\<close>.
  The response carries the results and their number; its two clock readings are left
  out.
\<close>

record response =
  results :: "pyval list"
  skills_executed :: nat

definition request_failed :: "agent \<Rightarrow> py_error \<Rightarrow> ((py_error + response) \<times> agent) option" where
  "request_failed a e =
     Some (Inl (RuntimeError (''Failed to process request: '' @ err_str e)), a)"

definition process_request_attempt ::
  "services \<Rightarrow> pyval \<Rightarrow> pydict option \<Rightarrow> pydict option \<Rightarrow> agent
     \<Rightarrow> ((py_error + response) \<times> agent) option" where
  "process_request_attempt svc request ctx security_context a =
     (if \<not> truthy request then request_failed a (ValueError ''Invalid request format'')
      else
        (case request of
           PStr r \<Rightarrow>
             (case check_security svc security_context of
                Inl e \<Rightarrow> request_failed a e
              | Inr u \<Rightarrow>
                  (case embed_request svc (update_conversation_history svc a r ctx) r of
                     None \<Rightarrow> None
                   | Some (request_embedding, a1) \<Rightarrow>
                       (case get_conversation_context svc a1 r security_context of
                          None \<Rightarrow> None
                        | Some (conversation_context, a2) \<Rightarrow>
                            (case run_skills svc a2 (select_skills a2 request_embedding)
                                    [(''request'', PStr r),
                                     (''context'', PList (map PDict conversation_context))] [] of
                               (rs, a3) \<Rightarrow>
                                 (case update_state svc a3
                                         (PDict [(''last_request'', PStr r),
                                                 (''last_results'', PList rs),
                                                 (''timestamp'', PStr (isoformat svc (clock svc)))]) of
                                    None \<Rightarrow> None
                                  | Some (ok, a4) \<Rightarrow>
                                      Some (Inr \<lparr>results = rs, skills_executed = length rs\<rparr>,
                                            a4))))))
         | _ \<Rightarrow> request_failed a (ValueError ''Invalid request format'')))"

text \<open>
  \<open>process_request\<close> is that body under
  \<open>@retry(wait=wait_exponential(...), stop=stop_after_attempt(3))\<close>; \<open>svc_at k\<close> is
  what the collaborators answer during attempt \<open>k\<close>.
\<close>

definition process_request ::
  "(nat \<Rightarrow> services) \<Rightarrow> pyval \<Rightarrow> pydict option \<Rightarrow> pydict option \<Rightarrow> agent
     \<Rightarrow> ((py_error + response) \<times> agent) option" where
  "process_request svc_at request ctx security_context a =
     stop_after_attempt 3
       (\<lambda>k. process_request_attempt (svc_at k) request ctx security_context) a"

section \<open>Vocabulary of the properties\<close>

text \<open>
  A run of the conversation history: turns are appended by
  \<open>_update_conversation_history\<close> and the cleanup task trims now and then.
  \<open>appended_turns\<close> lists the turns a run appended, oldest first, and \<open>most_recent n\<close>
  keeps the last \<open>n\<close> entries of a list in their order.
\<close>

datatype history_event = Appended services string "pydict option" | Cleaned

fun apply_event :: "agent \<Rightarrow> history_event \<Rightarrow> agent" where
  "apply_event a (Appended svc request ctx) = update_conversation_history svc a request ctx"
| "apply_event a Cleaned = cleanup_iteration a"

fun appended_turns :: "history_event list \<Rightarrow> turn list" where
  "appended_turns [] = []"
| "appended_turns (Appended svc request ctx # evs) = new_turn svc request ctx # appended_turns evs"
| "appended_turns (Cleaned # evs) = appended_turns evs"

definition most_recent :: "nat \<Rightarrow> 'a list \<Rightarrow> 'a list" where
  "most_recent n xs = drop (length xs - n) xs"

text \<open>
  An adapter that answers by script, as a test double does: it records each batch
  it is given, and \<open>answer n batch\<close> is what its call number \<open>n\<close> (from 0) returns or
  raises.
\<close>

definition scripted_adapter ::
  "(nat \<Rightarrow> vector_item list \<Rightarrow> py_error + bool) \<Rightarrow> (vector_item list list) adapter" where
  "scripted_adapter answer sent batch = Some (answer (length sent) batch, sent @ [batch])"

text \<open>A vector item is the embedding of a text item: same id and metadata.\<close>

definition embedded :: "(string \<Rightarrow> py_error + embedding) \<Rightarrow> text_item \<Rightarrow> vector_item \<Rightarrow> bool" where
  "embedded gen item v =
     (fst v = fst item \<and> gen (fst (snd item)) = Inr (fst (snd v)) \<and> snd (snd v) = snd (snd item))"

text \<open>The agent after a series of \<open>execute_skill\<close> calls, whatever each returned.\<close>

fun after_calls :: "agent \<Rightarrow> (services \<times> string \<times> pydict) list \<Rightarrow> agent" where
  "after_calls a [] = a"
| "after_calls a ((svc, key, inputs) # calls) =
     after_calls (snd (execute_skill svc a key inputs)) calls"

section \<open>Concrete collaborators for the worked examples\<close>

text \<open>
  \<open>demo_str\<close> prints a value as Python's \<open>str()\<close> does, without the quotes around
  strings and the commas between entries, so it is never longer than what Python
  prints. In \<open>demo_services\<close> times count from 2026-01-01T00:00:00 and the clock reads
  301 seconds; the language model times out on every call; every text embeds to a
  vector of the configured dimension 1, and the index has one match.
\<close>

fun demo_str :: "pyval \<Rightarrow> string" where
  "demo_str PNone = ''None''"
| "demo_str (PBool b) = (if b then ''True'' else ''False'')"
| "demo_str (PInt i) = (if i < 0 then ''-'' else []) @ show_nat (nat \<bar>i\<bar>)"
| "demo_str (PStr s) = s"
| "demo_str (PList xs) = ''['' @ concat (map demo_str xs) @ '']''"
| "demo_str (PDict kvs) =
     ''{'' @ concat (map (\<lambda>kv. fst kv @ '': '' @ demo_str (snd kv)) kvs) @ ''}''"

definition demo_services :: services where
  "demo_services =
     \<lparr>py_str = demo_str,
      py_format = (\<lambda>template inputs. Inr template),
      fromisoformat = (\<lambda>v. case v of
          PStr s \<Rightarrow> if s = ''2026-01-01T00:00:00'' then Inr 0
                    else Inl (ValueError ''Invalid isoformat string'')
        | _ \<Rightarrow> Inl (TypeError ''fromisoformat: argument must be str'')),
      clock = 301 * 1000000,
      isoformat = (\<lambda>t. ''2026-01-01T00:05:01''),
      monotonic = 0,
      llm_text = (\<lambda>p. Inl (ProviderError ''timeout'')),
      embedding_api = (\<lambda>n t. Inr [0]),
      index_api = (\<lambda>n v k. Inr [(''m1'', PInt 1,
          PDict [(''role'', PStr ''user''), (''content'', PStr ''hello'')])]),
      vector_dimension = 1\<rparr>"

definition demo_skill :: skill where
  "demo_skill =
     \<lparr>name = ''summarize'', description = ''Summarize a text'', category = TEXT_PROCESSING,
      prompt_template = [(''base'', ''Summarize'')], input_schema = [], output_schema = [],
      metadata = [], validation_errors = 0, execution_errors = 0, timeout_errors = 0,
      max_input_size = 10000, last_execution = None\<rparr>"

text \<open>A registry that holds \<open>demo_skill\<close>, and a new agent with that registry.\<close>

definition demo_registry :: registry where
  "demo_registry =
     \<lparr>skills = [(''summarize'', demo_skill)],
      metrics = [(''summarize'', \<lparr>registered_at = ''2026-01-01T00:05:01'',
                   execution_count = 0, error_rate = 0\<rparr>)],
      registry_lock = False\<rparr>"

definition demo_agent :: agent where
  "demo_agent = (new_agent demo_services)\<lparr>skill_registry := demo_registry\<rparr>"

definition demo_turn :: turn where
  "demo_turn = new_turn demo_services ''earlier'' None"

text \<open>
  250 items to store; a scripted adapter's answers whose second call (number 1)
  reports failure by returning \<open>False\<close>, as the mocked adapter of the unit tests does,
  and one whose second call raises; and an index whose second call (number 1) fails
  once with a connection error.
\<close>

definition demo_items :: "text_item list" where
  "demo_items = replicate 250 (''doc'', ''some text'', [])"

definition demo_gen :: "string \<Rightarrow> py_error + embedding" where
  "demo_gen t = Inr [0]"

definition demo_upsert :: "nat \<Rightarrow> vector_item list \<Rightarrow> py_error + bool" where
  "demo_upsert n batch = Inr (n \<noteq> 1)"

definition demo_upsert_raising :: "nat \<Rightarrow> vector_item list \<Rightarrow> py_error + bool" where
  "demo_upsert_raising n batch =
     (if n = 1 then Inl (RuntimeError ''Failed to upsert vectors: Storage Error'') else Inr True)"

definition demo_index :: index_provider where
  "demo_index n batch = (if n = 1 then Inl (ProviderError ''connection reset'') else Inr ())"


section \<open>Properties\<close>

subsection \<open>Retrying\<close>

lemma retry_loop_all_fail:
  assumes "\<And>k w. f k w = Some (Inl e, g w)"
  shows "retry_loop r k f w = Some (Inl (RetryError e), (g ^^ Suc r) w)"
  using assms by (induction r arbitrary: k w) (simp_all add: funpow_swap1)

lemma retry_forever_never_returns:
  assumes inv: "\<And>k w. I w \<Longrightarrow> f k w = None \<or> (\<exists>e w'. f k w = Some (Inl e, w') \<and> I w')"
    and start: "I w"
  shows "retry_forever f k w = None"
proof -
  have no: "retry_forever f k w = Some y \<Longrightarrow> \<not> I w" for y
  proof (rule retry_forever.raw_induct[where P = "\<lambda>g k w y. g = f \<longrightarrow> \<not> I w", rule_format])
    show "retry_forever f k w = Some y \<Longrightarrow> retry_forever f k w = Some y" by simp
    show "f = f" by simp
  next
    fix rf g k w y
    assume IH: "\<And>k w b y. rf k w b = Some y \<Longrightarrow> k = f \<Longrightarrow> \<not> I b"
      and step: "(case g k w of None \<Rightarrow> None | Some (Inl e, w') \<Rightarrow> rf g (Suc k) w'
                 | Some (Inr x, w') \<Rightarrow> Some (x, w')) = Some y"
      and g: "g = f"
    show "\<not> I w"
    proof
      assume "I w"
      from inv[OF this, of k] step g IH show False
        by (auto split: option.splits sum.splits prod.splits)
    qed
  qed
  show ?thesis using no start by (cases "retry_forever f k w") auto
qed

subsection \<open>The language model adapter\<close>

lemma generate_text_attempt_invalid:
  "new_LLMRequest p t m rid = Inl e \<Longrightarrow>
     generate_text_attempt cc p t m rid k w =
       Some (Inl e, w\<lparr>validation_error := Suc (validation_error w)\<rparr>)"
  by (simp add: generate_text_attempt_def)

lemma generate_text_invalid:
  assumes "new_LLMRequest p t m rid = Inl e"
  shows "generate_text cc p t m rid w =
           Some (Inl (RetryError e), w\<lparr>validation_error := validation_error w + 3\<rparr>)"
proof -
  have "retry_loop 2 1 (generate_text_attempt cc p t m rid) w =
          Some (Inl (RetryError e),
                ((\<lambda>w. w\<lparr>validation_error := Suc (validation_error w)\<rparr>) ^^ Suc 2) w)"
    by (rule retry_loop_all_fail) (simp add: generate_text_attempt_invalid[OF assms])
  then show ?thesis
    by (simp add: generate_text_def stop_after_attempt_def numeral_3_eq_3 numeral_2_eq_2)
qed

lemma generate_embedding_empty: "generate_embedding ce d [] calls = None"
  unfolding generate_embedding_def
  by (rule retry_forever_never_returns[where I = "\<lambda>w. True"])
     (simp_all add: generate_embedding_attempt_def)

lemma generate_embedding_first_try:
  "x \<noteq> [] \<Longrightarrow> ce (length calls) x = Inr emb \<Longrightarrow> length emb = d \<Longrightarrow>
     generate_embedding ce d x calls = Some (emb, calls @ [x])"
  unfolding generate_embedding_def
  by (subst retry_forever.simps) (simp add: generate_embedding_attempt_def)

text \<open>
  C2 (the code departs from the claim). An argument that fails the validation of
  \<open>generate_text\<close> never reaches the provider, but the failure is retried: the
  validation runs three times and the caller gets tenacity's \<open>RetryError\<close>.
  \<open>generate_embedding\<close> on the empty text retries without end and returns nothing,
  and it rejects only the empty text: any other text, blank ones included, is sent
  to the provider.
\<close>

theorem invalid_argument_is_retried:
  "(new_LLMRequest p t m rid = Inl e \<longrightarrow>
      generate_text cc p t m rid w =
        Some (Inl (RetryError e), w\<lparr>validation_error := validation_error w + 3\<rparr>))
   \<and> generate_embedding ce d [] calls = None
   \<and> (x \<noteq> [] \<and> ce (length calls) x = Inr emb \<and> length emb = d \<longrightarrow>
        generate_embedding ce d x calls = Some (emb, calls @ [x]))"
  using generate_text_invalid generate_embedding_empty generate_embedding_first_try by blast

theorem invalid_argument_is_retried_witness:
  "new_LLMRequest [] (Some 0.7) (Some 1000) None = Inl (ValidationError [''Prompt cannot be empty''])
   \<and> generate_text (\<lambda>n p t m. Inr ''completion'') [] (Some 0.7) (Some 1000) None
        \<lparr>validation_error = 0, service_error = 0, completion_calls = []\<rparr> =
      Some (Inl (RetryError (ValidationError [''Prompt cannot be empty''])),
            \<lparr>validation_error = 3, service_error = 0, completion_calls = []\<rparr>)
   \<and> generate_embedding (\<lambda>n t. Inr [0]) 1 [] [] = None
   \<and> strip ''  '' = []
   \<and> generate_embedding (\<lambda>n t. Inr [0]) 1 ''  '' [] = Some ([0], [''  ''])"
proof -
  have v: "new_LLMRequest [] (Some 0.7) (Some 1000) None =
             Inl (ValidationError [''Prompt cannot be empty''])"
    by (simp add: new_LLMRequest_def validate_prompt_def validate_temperature_def
          validate_max_tokens_def failures_def)
  have sp: "strip ''  '' = []"
    by (simp add: strip_def py_isspace_def)
  show ?thesis
    using v sp invalid_argument_is_retried [where p = "[]" and t = "Some 0.7"
        and m = "Some 1000" and rid = None
        and e = "ValidationError [''Prompt cannot be empty'']"
        and cc = "\<lambda>n p t m. Inr ''completion''"
        and w = "\<lparr>validation_error = 0, service_error = 0, completion_calls = []\<rparr>"
        and ce = "\<lambda>n t. Inr [0]" and d = 1 and calls = "[]" and x = "''  ''" and emb = "[0]"]
    by simp
qed

subsection \<open>The conversation history\<close>

lemma appended_turns_snoc:
  "appended_turns (evs @ [ev]) =
     appended_turns evs @ (case ev of Appended svc r c \<Rightarrow> [new_turn svc r c] | Cleaned \<Rightarrow> [])"
  by (induction evs rule: appended_turns.induct) (auto split: history_event.splits)

lemma most_recent_snoc:
  assumes "0 < n"
  shows "(let h = most_recent n xs @ [x] in if length h > n then tl h else h) =
           most_recent n (xs @ [x])"
proof (cases "length xs < n")
  case True
  then show ?thesis by (simp add: most_recent_def)
next
  case False
  define d where "d = length xs - n"
  have len: "length xs = d + n" using False by (simp add: d_def)
  have ne: "drop d xs \<noteq> []" using assms len by simp
  have "tl (drop d xs @ [x]) = drop (Suc d) xs @ [x]"
    using ne by (simp add: drop_Suc tl_drop)
  moreover have "length (xs @ [x]) - n = Suc d" using len by simp
  moreover have "length (drop d xs @ [x]) > n" using len by simp
  ultimately show ?thesis
    using len assms by (simp add: most_recent_def d_def[symmetric] Let_def)
qed

text \<open>
  C3. From a history within the limit (the constructor's empty one is), after any run
  of appends and cleanups the stored history is the most recent 100 entries of the
  old history followed by the appended turns, in their order, so its length is at
  most 100.
\<close>

theorem history_bounded_fifo:
  assumes "length (conversation_history a) \<le> CONVERSATION_HISTORY_LIMIT"
  shows "conversation_history (foldl apply_event a evs) =
           most_recent CONVERSATION_HISTORY_LIMIT (conversation_history a @ appended_turns evs)
         \<and> length (conversation_history (foldl apply_event a evs)) \<le> CONVERSATION_HISTORY_LIMIT"
proof -
  let ?L = CONVERSATION_HISTORY_LIMIT
  have eq: "conversation_history (foldl apply_event a evs) =
           most_recent ?L (conversation_history a @ appended_turns evs)"
  proof (induction evs rule: rev_induct)
    case Nil
    from assms show ?case by (simp add: most_recent_def)
  next
    case (snoc ev evs)
    show ?case
    proof (cases ev)
      case (Appended svc r c)
      have "0 < ?L" by (simp add: CONVERSATION_HISTORY_LIMIT_def)
      from most_recent_snoc[OF this, of "conversation_history a @ appended_turns evs" "new_turn svc r c"]
      show ?thesis using snoc Appended
        by (simp add: appended_turns_snoc update_conversation_history_def Let_def)
    next
      case Cleaned
      then show ?thesis using snoc
        by (simp add: appended_turns_snoc cleanup_iteration_def Let_def most_recent_def)
    qed
  qed
  then show ?thesis by (simp add: most_recent_def)
qed

theorem history_bounded_fifo_witness:
  "length (conversation_history (demo_agent\<lparr>conversation_history := replicate 100 demo_turn\<rparr>))
     \<le> CONVERSATION_HISTORY_LIMIT
   \<and> conversation_history
       (foldl apply_event (demo_agent\<lparr>conversation_history := replicate 100 demo_turn\<rparr>)
          [Appended demo_services ''first'' None, Cleaned, Appended demo_services ''second'' None]) =
     replicate 98 demo_turn @
       [new_turn demo_services ''first'' None, new_turn demo_services ''second'' None]"
  using history_bounded_fifo[of "demo_agent\<lparr>conversation_history := replicate 100 demo_turn\<rparr>"
      "[Appended demo_services ''first'' None, Cleaned, Appended demo_services ''second'' None]"]
  by (simp add: CONVERSATION_HISTORY_LIMIT_def most_recent_def)

subsection \<open>The skill registry\<close>

lemma skill_dict_valid: "validate_skill_config svc (skill_dict s) = (True, None)"
  by (cases "category s")
     (simp_all add: validate_skill_config_def skill_dict_def SkillCategory_members_def)

lemma acquire_free:
  "\<not> registry_lock reg \<Longrightarrow> acquire reg = Some (reg\<lparr>registry_lock := True\<rparr>)"
  by (subst acquire.simps) simp

lemma acquire_held: "registry_lock reg \<Longrightarrow> acquire reg = None"
proof -
  have "acquire reg = Some y \<Longrightarrow> \<not> registry_lock reg" for y
    by (rule acquire.raw_induct[where P = "\<lambda>reg y. \<not> registry_lock reg"])
       (auto split: if_splits)
  then show "registry_lock reg \<Longrightarrow> acquire reg = None"
    by (cases "acquire reg") auto
qed

lemma release_held: "\<not> registry_lock reg \<Longrightarrow> release (reg\<lparr>registry_lock := True\<rparr>) = reg"
  by (simp add: release_def)

lemma register_skill_held: "registry_lock reg \<Longrightarrow> register_skill svc reg s = Deadlock reg"
  by (simp add: register_skill_def acquire_held)

lemma first_invalid_None:
  "list_all (\<lambda>s. fst (validate_skill_config svc (skill_dict s))) batch \<Longrightarrow>
     first_invalid svc batch = None"
  by (induction batch) (auto split: prod.splits)

text \<open>
  C7. On a registry whose lock is free (no call is in progress), registering a skill
  whose name is already a key returns the failure with its message and leaves the
  registry, both dictionaries included, as it was.
\<close>

theorem register_duplicate_rejected:
  assumes "\<not> registry_lock reg" and "map_of (skills reg) (name s) \<noteq> None"
  shows "register_skill svc reg s =
           Returns (False, Some (''Skill already exists: '' @ name s)) reg"
  using assms by (simp add: register_skill_def acquire_free skill_dict_valid release_held)

theorem register_duplicate_rejected_witness:
  "register_skill demo_services (skill_registry (new_agent demo_services)) demo_skill =
     Returns (True, None) demo_registry
   \<and> \<not> registry_lock demo_registry
   \<and> map_of (skills demo_registry) (name (demo_skill\<lparr>description := ''Another''\<rparr>)) \<noteq> None
   \<and> register_skill demo_services demo_registry (demo_skill\<lparr>description := ''Another''\<rparr>) =
       Returns (False, Some ''Skill already exists: summarize'') demo_registry"
proof -
  have first: "register_skill demo_services (skill_registry (new_agent demo_services)) demo_skill =
     Returns (True, None) demo_registry"
    by (simp add: register_skill_def acquire_free skill_dict_valid new_agent_def release_def
          demo_registry_def demo_skill_def demo_services_def)
  have free: "\<not> registry_lock demo_registry" by (simp add: demo_registry_def)
  have dup: "map_of (skills demo_registry) (name (demo_skill\<lparr>description := ''Another''\<rparr>)) \<noteq> None"
    by (simp add: demo_registry_def demo_skill_def)
  from register_duplicate_rejected[OF free dup, of demo_services] first free dup
  show ?thesis by (simp add: demo_skill_def)
qed

text \<open>
  C10. \<open>bulk_register\<close> on a batch that is not empty and passes validation never
  returns: it takes the lock and its first \<open>register_skill\<close> waits for that lock. The
  registry at that moment has the lock held and the dictionaries untouched. (If the
  lock is already held when the call starts, it waits at once.)
\<close>

theorem bulk_register_deadlocks:
  assumes "batch \<noteq> []"
    and "list_all (\<lambda>s. fst (validate_skill_config svc (skill_dict s))) batch"
  shows "bulk_register svc reg batch = Deadlock (reg\<lparr>registry_lock := True\<rparr>)"
proof (cases "registry_lock reg")
  case True
  then have "reg\<lparr>registry_lock := True\<rparr> = reg" by simp
  with True show ?thesis by (simp add: bulk_register_def acquire_held)
next
  case False
  obtain s rest where batch: "batch = s # rest" using assms(1) by (cases batch) auto
  have "register_each svc (reg\<lparr>registry_lock := True\<rparr>) batch [] =
          Deadlock (reg\<lparr>registry_lock := True\<rparr>)"
    by (simp add: batch register_skill_held)
  with False first_invalid_None[OF assms(2)] show ?thesis
    by (simp add: bulk_register_def acquire_free)
qed

theorem bulk_register_deadlocks_witness:
  "[demo_skill] \<noteq> []
   \<and> list_all (\<lambda>s. fst (validate_skill_config demo_services (skill_dict s))) [demo_skill]
   \<and> bulk_register demo_services (skill_registry (new_agent demo_services)) [demo_skill] =
       Deadlock \<lparr>skills = [], metrics = [], registry_lock = True\<rparr>"
proof -
  have ne: "[demo_skill] \<noteq> []" by simp
  have ok: "list_all (\<lambda>s. fst (validate_skill_config demo_services (skill_dict s))) [demo_skill]"
    by (simp add: skill_dict_valid)
  from bulk_register_deadlocks[OF ne ok, of "skill_registry (new_agent demo_services)"] ok
  show ?thesis by (simp add: new_agent_def)
qed

subsection \<open>The retrieval context\<close>

lemma generate_embedding_provider_down:
  assumes "\<And>n. \<exists>e. ce n x = Inl e"
  shows "generate_embedding ce d x calls = None"
  unfolding generate_embedding_def
proof (rule retry_forever_never_returns[where I = "\<lambda>w. True"])
  fix k and w :: "string list"
  from assms[of "length w"] obtain e where "ce (length w) x = Inl e" by blast
  then show "generate_embedding_attempt ce d x k w = None \<or>
        (\<exists>e w'. generate_embedding_attempt ce d x k w = Some (Inl e, w') \<and> True)"
    by (simp add: generate_embedding_attempt_def)
qed simp

lemma query_first_try:
  "length v = d \<Longrightarrow> iq (length queries) v top_k = Inr matches \<Longrightarrow>
     query iq d v top_k queries = Some (map format_match matches, queries @ [(v, top_k)])"
  unfolding query_def
  by (subst retry_forever.simps) (simp add: query_attempt_def)

lemma project_all_Inr:
  "list_all2 (\<lambda>conv p. project conv = Inr p) convs ps \<Longrightarrow> project_all convs = Inr ps"
  by (induction convs ps rule: list_all2_induct) auto

lemma embed_request_first_try:
  assumes "x \<noteq> []"
    and "embedding_api svc (length (embedding_calls (embedding_service a))) x = Inr emb"
    and "length emb = vector_dimension svc"
  shows "embed_request svc a x =
           Some (emb, a\<lparr>embedding_service := (embedding_service a)\<lparr>embedding_calls :=
                          embedding_calls (embedding_service a) @ [x]\<rparr>\<rparr>)"
  using generate_embedding_first_try[where ce = "embedding_api svc" and x = x
      and calls = "embedding_calls (embedding_service a)" and emb = emb
      and d = "vector_dimension svc"] assms
  by (simp add: embed_request_def)

lemma search_request_first_try:
  assumes "x \<noteq> []"
    and "embedding_api svc (length (embedding_calls (embedding_service a))) x = Inr emb"
    and "length emb = vector_dimension svc"
    and "index_api svc (length (index_queries (embedding_service a))) emb 5 = Inr matches"
  shows "search_request svc a x =
           Some (Inr (map format_match matches),
                 a\<lparr>embedding_service :=
                     \<lparr>embedding_calls = embedding_calls (embedding_service a) @ [x],
                      index_queries = index_queries (embedding_service a) @ [(emb, 5)]\<rparr>\<rparr>)"
  using generate_embedding_first_try[where ce = "embedding_api svc" and x = x
      and calls = "embedding_calls (embedding_service a)" and emb = emb
      and d = "vector_dimension svc"]
    query_first_try[where iq = "index_api svc" and v = emb and d = "vector_dimension svc"
      and queries = "index_queries (embedding_service a)" and top_k = 5 and matches = matches]
    assms
  by (simp add: search_request_def search_similar_def)

text \<open>
  When the security check passes and both providers answer at once, the context is
  the role and content of each match, in the order of the matches.
\<close>

lemma get_conversation_context_first_try:
  assumes sec: "check_security svc sc = Inr ()" and ne: "x \<noteq> []"
    and e1: "embedding_api svc (length (embedding_calls (embedding_service a))) x = Inr emb1"
    and l1: "length emb1 = vector_dimension svc"
    and e2: "embedding_api svc (Suc (length (embedding_calls (embedding_service a)))) x = Inr emb2"
    and l2: "length emb2 = vector_dimension svc"
    and q: "index_api svc (length (index_queries (embedding_service a))) emb2 5 = Inr matches"
    and p: "project_all (map format_match matches) = Inr ctx"
  shows "get_conversation_context svc a x sc =
           Some (ctx, a\<lparr>embedding_service :=
                   \<lparr>embedding_calls = embedding_calls (embedding_service a) @ [x, x],
                    index_queries = index_queries (embedding_service a) @ [(emb2, 5)]\<rparr>\<rparr>)"
proof -
  let ?a1 = "a\<lparr>embedding_service := (embedding_service a)\<lparr>embedding_calls :=
                          embedding_calls (embedding_service a) @ [x]\<rparr>\<rparr>"
  have s1: "embed_request svc a x = Some (emb1, ?a1)"
    by (rule embed_request_first_try[OF ne e1 l1])
  have s2: "search_request svc ?a1 x =
           Some (Inr (map format_match matches),
                 ?a1\<lparr>embedding_service :=
                     \<lparr>embedding_calls = embedding_calls (embedding_service ?a1) @ [x],
                      index_queries = index_queries (embedding_service ?a1) @ [(emb2, 5)]\<rparr>\<rparr>)"
    by (rule search_request_first_try[OF ne _ l2]) (simp_all add: e2 q)
  show ?thesis
    by (simp add: get_conversation_context_def sec s1 s2 p)
qed

lemma query_provider_down:
  assumes "\<And>n. \<exists>e. iq n v top_k = Inl e"
  shows "query iq d v top_k queries = None"
  unfolding query_def
proof (rule retry_forever_never_returns[where I = "\<lambda>w. True"])
  fix k and w :: "(embedding \<times> int) list"
  from assms[of "length w"] obtain e where "iq (length w) v top_k = Inl e" by blast
  then show "query_attempt iq d v top_k k w = None \<or>
        (\<exists>e w'. query_attempt iq d v top_k k w = Some (Inl e, w') \<and> True)"
    by (simp add: query_attempt_def)
qed simp

text \<open>
  C9 (the code departs from the claim). \<open>get_conversation_context\<close> turns every
  exception into the empty list, but a failed embedding raises nothing: under its
  \<open>@retry\<close> without a stop condition \<open>generate_embedding\<close> tries again for ever. So for
  the empty query, and for any query while the embedding provider keeps failing,
  \<open>get_conversation_context\<close> does not return at all, with or without a security
  context that passes. The empty list is what it returns when the security context
  is rejected.
\<close>

theorem context_blocks_on_failed_embedding:
  "(check_security svc sc = Inr () \<longrightarrow> get_conversation_context svc a [] sc = None)
   \<and> (check_security svc sc = Inr () \<and> (\<forall>n. \<exists>e. embedding_api svc n request = Inl e) \<longrightarrow>
        get_conversation_context svc a request sc = None)
   \<and> (check_security svc sc = Inl e \<longrightarrow> get_conversation_context svc a request sc = Some ([], a))"
proof -
  have "embed_request svc a [] = None"
    by (simp add: embed_request_def generate_embedding_empty)
  moreover have "embed_request svc a request = None"
    if "\<forall>n. \<exists>e. embedding_api svc n request = Inl e"
    using that by (simp add: embed_request_def generate_embedding_provider_down)
  ultimately show ?thesis
    by (auto simp: get_conversation_context_def)
qed

theorem context_blocks_on_failed_embedding_witness:
  "check_security demo_services None = Inr ()
   \<and> get_conversation_context demo_services demo_agent [] None = None
   \<and> get_conversation_context
        (demo_services\<lparr>embedding_api := (\<lambda>n t. Inl (ProviderError ''API Error''))\<rparr>)
        demo_agent ''hi'' None = None
   \<and> get_conversation_context demo_services demo_agent ''hi''
        (Some [(''user_id'', PStr ''u1'')]) = Some ([], demo_agent)
   \<and> get_conversation_context demo_services demo_agent ''hi'' None =
        Some ([[(''role'', PStr ''user''), (''content'', PStr ''hello'')]],
              demo_agent\<lparr>embedding_service :=
                \<lparr>embedding_calls = [''hi'', ''hi''], index_queries = [([0], 5)]\<rparr>\<rparr>)"
proof -
  have sec: "check_security demo_services None = Inr ()"
    by (simp add: check_security_def)
  have rej: "check_security demo_services (Some [(''user_id'', PStr ''u1'')]) =
               Inl (ValueError ''Missing required security field: access_level'')"
    by (simp add: check_security_def validate_security_context_def)
  have ok: "get_conversation_context demo_services demo_agent ''hi'' None =
        Some ([[(''role'', PStr ''user''), (''content'', PStr ''hello'')]],
              demo_agent\<lparr>embedding_service :=
                \<lparr>embedding_calls = [''hi'', ''hi''], index_queries = [([0], 5)]\<rparr>\<rparr>)"
  proof -
    have "get_conversation_context demo_services demo_agent ''hi'' None =
        Some ([[(''role'', PStr ''user''), (''content'', PStr ''hello'')]],
              demo_agent\<lparr>embedding_service :=
                \<lparr>embedding_calls = embedding_calls (embedding_service demo_agent) @ [''hi'', ''hi''],
                 index_queries = index_queries (embedding_service demo_agent) @ [([0], 5)]\<rparr>\<rparr>)"
      by (rule get_conversation_context_first_try[where ?emb1.0 = "[0]"
            and matches = "[(''m1'', PInt 1,
              PDict [(''role'', PStr ''user''), (''content'', PStr ''hello'')])]"])
         (simp_all add: check_security_def demo_services_def format_match_def project_def subscript_def)
    then show ?thesis by (simp add: demo_agent_def new_agent_def)
  qed
  show ?thesis
    using sec rej ok
      context_blocks_on_failed_embedding[where svc = demo_services and sc = None and a = demo_agent]
      context_blocks_on_failed_embedding[where
        svc = "demo_services\<lparr>embedding_api := (\<lambda>n t. Inl (ProviderError ''API Error''))\<rparr>"
        and sc = None and a = demo_agent and request = "''hi''"]
      context_blocks_on_failed_embedding[where svc = demo_services
        and sc = "Some [(''user_id'', PStr ''u1'')]" and a = demo_agent and request = "''hi''"
        and e = "ValueError ''Missing required security field: access_level''"]
    by (simp add: check_security_def)
qed

text \<open>
  The same holds one step later: \<open>query\<close> has no stop condition either, so while the
  index keeps failing the search does not return.
\<close>

lemma get_conversation_context_index_down:
  assumes sec: "check_security svc sc = Inr ()" and ne: "x \<noteq> []"
    and e1: "embedding_api svc (length (embedding_calls (embedding_service a))) x = Inr emb1"
    and l1: "length emb1 = vector_dimension svc"
    and e2: "embedding_api svc (Suc (length (embedding_calls (embedding_service a)))) x = Inr emb2"
    and l2: "length emb2 = vector_dimension svc"
    and q: "\<And>n. \<exists>e. index_api svc n emb2 5 = Inl e"
  shows "get_conversation_context svc a x sc = None"
proof -
  let ?a1 = "a\<lparr>embedding_service := (embedding_service a)\<lparr>embedding_calls :=
                          embedding_calls (embedding_service a) @ [x]\<rparr>\<rparr>"
  have s1: "embed_request svc a x = Some (emb1, ?a1)"
    by (rule embed_request_first_try[OF ne e1 l1])
  have "generate_embedding (embedding_api svc) (vector_dimension svc) x
          (embedding_calls (embedding_service ?a1)) =
        Some (emb2, embedding_calls (embedding_service ?a1) @ [x])"
    by (rule generate_embedding_first_try[OF ne _ l2]) (simp add: e2)
  then have s2: "search_request svc ?a1 x = None"
    using ne query_provider_down[of "index_api svc" emb2 5, OF q]
    by (simp add: search_request_def search_similar_def)
  show ?thesis
    by (simp add: get_conversation_context_def sec s1 s2)
qed

subsection \<open>The security context\<close>









subsection \<open>Storing embeddings in batches\<close>

declare store_loop.simps [simp del]

lemma embed_batch_Inr_iff:
  "embed_batch gen td = Inr vd \<longleftrightarrow> list_all2 (embedded gen) td vd"
proof (induction td arbitrary: vd)
  case Nil
  then show ?case by auto
next
  case (Cons item td)
  obtain ident t m where item: "item = (ident, t, m)" by (cases item) auto
  show ?case
    using Cons[symmetric] unfolding item
    by (auto simp: list_all2_Cons1 embedded_def split: sum.splits)
qed

lemma embed_batch_slice:
  "embed_batch gen td = Inr vd \<Longrightarrow>
     embed_batch gen (take n (drop i td)) = Inr (take n (drop i vd))"
  by (simp add: embed_batch_Inr_iff list_all2_takeI list_all2_dropI)

lemma embed_batch_length: "embed_batch gen td = Inr vd \<Longrightarrow> length vd = length td"
  by (simp add: embed_batch_Inr_iff list_all2_lengthD)

lemma embed_batch_replicate:
  "gen t = Inr v \<Longrightarrow> embed_batch gen (replicate n (i, t, m)) = Inr (replicate n (i, v, m))"
  by (induction n) auto

lemma store_loop_step:
  "i < length td \<Longrightarrow> embed_batch gen (take BATCH_SIZE (drop i td)) = Inr b \<Longrightarrow>
   upsert w b = Some (Inr r, w') \<Longrightarrow>
   store_loop gen upsert td i s w = store_loop gen upsert td (i + BATCH_SIZE) (s \<and> r) w'"
  by (subst store_loop.simps) auto

lemma store_loop_raise:
  "i < length td \<Longrightarrow> embed_batch gen (take BATCH_SIZE (drop i td)) = Inr b \<Longrightarrow>
   upsert w b = Some (Inl e, w') \<Longrightarrow>
   store_loop gen upsert td i s w = Some (Inl e, w')"
  by (subst store_loop.simps) auto

lemma store_loop_done:
  "\<not> i < length td \<Longrightarrow> store_loop gen upsert td i s w = Some (Inr s, w)"
  by (subst store_loop.simps) simp

lemma store_250_slices:
  assumes len: "length td = 250" and emb: "embed_batch gen td = Inr vd"
  shows "embed_batch gen (take BATCH_SIZE (drop 0 td)) = Inr (take 100 vd)"
    and "embed_batch gen (take BATCH_SIZE (drop 100 td)) = Inr (take 100 (drop 100 vd))"
    and "embed_batch gen (take BATCH_SIZE (drop 200 td)) = Inr (drop 200 vd)"
proof -
  have lv: "length vd = 250" using embed_batch_length[OF emb] len by simp
  show "embed_batch gen (take BATCH_SIZE (drop 0 td)) = Inr (take 100 vd)"
    using embed_batch_slice[OF emb, of 100 0] by (simp add: BATCH_SIZE_def)
  show "embed_batch gen (take BATCH_SIZE (drop 100 td)) = Inr (take 100 (drop 100 vd))"
    using embed_batch_slice[OF emb, of 100 100] by (simp add: BATCH_SIZE_def)
  show "embed_batch gen (take BATCH_SIZE (drop 200 td)) = Inr (drop 200 vd)"
    using embed_batch_slice[OF emb, of 100 200] lv by (simp add: BATCH_SIZE_def)
qed

text \<open>Three adapter calls that return: the loop goes through all three batches.\<close>

lemma store_250_all_return:
  assumes len: "length td = 250" and emb: "embed_batch gen td = Inr vd"
    and u0: "upsert w (take 100 vd) = Some (Inr r0, w1)"
    and u1: "upsert w1 (take 100 (drop 100 vd)) = Some (Inr r1, w2)"
    and u2: "upsert w2 (drop 200 vd) = Some (Inr r2, w3)"
  shows "store_embeddings gen upsert td w = Some (Inr (r0 \<and> r1 \<and> r2), w3)"
proof -
  note b = store_250_slices[OF len emb]
  have ne: "td \<noteq> []" using len by auto
  have "store_loop gen upsert td 0 True w = store_loop gen upsert td 100 r0 w1"
    using store_loop_step[where i=0 and td=td and gen=gen and b="take 100 vd" and upsert=upsert and w=w and r=r0 and w'=w1 and s=True] b(1) u0 len
    by (simp add: BATCH_SIZE_def)
  also have "\<dots> = store_loop gen upsert td 200 (r0 \<and> r1) w2"
    using store_loop_step[where i=100 and td=td and gen=gen and b="take 100 (drop 100 vd)" and upsert=upsert and w=w1 and r=r1 and w'=w2 and s=r0] b(2) u1 len
    by (simp add: BATCH_SIZE_def)
  also have "\<dots> = store_loop gen upsert td 300 ((r0 \<and> r1) \<and> r2) w3"
    using store_loop_step[where i=200 and td=td and gen=gen and b="drop 200 vd" and upsert=upsert and w=w2 and r=r2 and w'=w3 and s="r0 \<and> r1"] b(3) u2 len
    by (simp add: BATCH_SIZE_def)
  also have "\<dots> = Some (Inr ((r0 \<and> r1) \<and> r2), w3)"
    using len by (simp add: store_loop_done)
  finally show ?thesis using ne by (simp add: store_embeddings_def)
qed

lemma store_250_second_raises:
  assumes len: "length td = 250" and emb: "embed_batch gen td = Inr vd"
    and u0: "upsert w (take 100 vd) = Some (Inr r0, w1)"
    and u1: "upsert w1 (take 100 (drop 100 vd)) = Some (Inl e, w2)"
  shows "store_embeddings gen upsert td w =
           Some (Inl (RuntimeError (''Failed to store embeddings: '' @ err_str e)), w2)"
proof -
  note b = store_250_slices[OF len emb]
  have ne: "td \<noteq> []" using len by auto
  have "store_loop gen upsert td 0 True w = store_loop gen upsert td 100 r0 w1"
    using store_loop_step[where i=0 and td=td and gen=gen and b="take 100 vd" and upsert=upsert and w=w and r=r0 and w'=w1 and s=True] b(1) u0 len
    by (simp add: BATCH_SIZE_def)
  also have "\<dots> = Some (Inl e, w2)"
    using store_loop_raise[where i=100 and td=td and gen=gen and b="take 100 (drop 100 vd)" and upsert=upsert and w=w1 and e=e and w'=w2 and s=r0] b(2) u1 len
    by simp
  finally show ?thesis using ne by (simp add: store_embeddings_def)
qed

lemma demo_embed: "embed_batch demo_gen demo_items = Inr (replicate 250 (''doc'', [0], []))"
  by (simp add: demo_items_def embed_batch_replicate demo_gen_def)

text \<open>The repository's adapter: what one call does when the index answers.\<close>

lemma upsert_vectors_first_try:
  "find (\<lambda>v. length (fst (snd v)) \<noteq> dimension) b = None \<Longrightarrow>
   index_upsert (length calls) b = Inr () \<Longrightarrow>
   upsert_vectors index_upsert dimension calls b = Some (Inr True, calls @ [b])"
  unfolding upsert_vectors_def
  by (subst retry_forever.simps) (simp add: upsert_vectors_attempt_def)

lemma upsert_vectors_second_try:
  "find (\<lambda>v. length (fst (snd v)) \<noteq> dimension) b = None \<Longrightarrow>
   index_upsert (length calls) b = Inl e \<Longrightarrow>
   index_upsert (Suc (length calls)) b = Inr () \<Longrightarrow>
   upsert_vectors index_upsert dimension calls b = Some (Inr True, calls @ [b, b])"
  unfolding upsert_vectors_def
  by (subst retry_forever.simps, subst retry_forever.simps)
     (simp add: upsert_vectors_attempt_def)

lemma upsert_vectors_returns_True:
  assumes "upsert_vectors index_upsert dimension calls b = Some (r, calls')"
  shows "r = Inr True"
proof -
  have "retry_forever f k w = Some y \<Longrightarrow>
          f = upsert_vectors_attempt index_upsert dimension b \<longrightarrow> fst y = True" for f k w y
  proof (rule retry_forever.raw_induct[where
          P = "\<lambda>f k w y. f = upsert_vectors_attempt index_upsert dimension b \<longrightarrow> fst y = True"])
    show "retry_forever f k w = Some y \<Longrightarrow> retry_forever f k w = Some y" by simp
  next
    fix rf g k w y
    assume IH: "\<And>f k w y. rf f k w = Some y \<Longrightarrow>
                  f = upsert_vectors_attempt index_upsert dimension b \<longrightarrow> fst y = True"
      and step: "(case g k w of None \<Rightarrow> None | Some (Inl e, w') \<Rightarrow> rf g (Suc k) w'
                 | Some (Inr x, w') \<Rightarrow> Some (x, w')) = Some y"
    show "g = upsert_vectors_attempt index_upsert dimension b \<longrightarrow> fst y = True"
    proof
      assume g: "g = upsert_vectors_attempt index_upsert dimension b"
      show "fst y = True"
      proof (cases "g k w")
        case None
        with step show ?thesis by simp
      next
        case (Some res)
        obtain o' w' where res: "res = (o', w')" by (cases res) auto
        show ?thesis
        proof (cases o')
          case (Inl e)
          with step Some res IH[of g "Suc k" w' y] g show ?thesis by simp
        next
          case (Inr x)
          with Some res g have "x = True"
            by (auto simp: upsert_vectors_attempt_def split: option.splits sum.splits)
          with step Some res Inr show ?thesis by auto
        qed
      qed
    qed
  qed
  note always = this
  from assms obtain x where run: "retry_forever (upsert_vectors_attempt index_upsert dimension b) 1 calls = Some (x, calls')"
    and r: "r = Inr x"
    by (auto simp: upsert_vectors_def split: option.splits prod.splits)
  from always[OF run] r show ?thesis by simp
qed

text \<open>
  C4, as the code has it. With 250 items whose embeddings are all generated, the
  batches handed to the adapter are the first 100, the next 100 and the last 50
  vector items. When the three adapter calls return, all three batches are sent, in
  that order, and the result is the conjunction of the three answers: an adapter call
  that returns \<open>False\<close> makes the result \<open>False\<close> and stops nothing. When the second
  adapter call raises, the operation raises \<open>RuntimeError\<close> and the third batch is
  never sent.
\<close>

theorem store_embeddings_250:
  assumes "length td = 250" and "embed_batch gen td = Inr vd"
  shows "map length [take 100 vd, take 100 (drop 100 vd), drop 200 vd] = [100, 100, 50]
    \<and> (answer 0 (take 100 vd) = Inr r0 \<and> answer 1 (take 100 (drop 100 vd)) = Inr r1 \<and>
       answer 2 (drop 200 vd) = Inr r2 \<longrightarrow>
         store_embeddings gen (scripted_adapter answer) td [] =
           Some (Inr (r0 \<and> r1 \<and> r2), [take 100 vd, take 100 (drop 100 vd), drop 200 vd]))
    \<and> (answer 0 (take 100 vd) = Inr r0 \<and> answer 1 (take 100 (drop 100 vd)) = Inl e \<longrightarrow>
         store_embeddings gen (scripted_adapter answer) td [] =
           Some (Inl (RuntimeError (''Failed to store embeddings: '' @ err_str e)),
                 [take 100 vd, take 100 (drop 100 vd)]))"
proof -
  have "length vd = 250" using embed_batch_length[OF assms(2)] assms(1) by simp
  then have sizes: "map length [take 100 vd, take 100 (drop 100 vd), drop 200 vd] = [100, 100, 50]"
    by simp
  have all: "store_embeddings gen (scripted_adapter answer) td [] =
           Some (Inr (r0 \<and> r1 \<and> r2), [take 100 vd, take 100 (drop 100 vd), drop 200 vd])"
    if "answer 0 (take 100 vd) = Inr r0" "answer 1 (take 100 (drop 100 vd)) = Inr r1"
       "answer 2 (drop 200 vd) = Inr r2"
    using that
    by (intro store_250_all_return[OF assms, where ?w1.0 = "[take 100 vd]"
          and ?w2.0 = "[take 100 vd, take 100 (drop 100 vd)]"])
       (simp_all add: scripted_adapter_def numeral_2_eq_2)
  have raise: "store_embeddings gen (scripted_adapter answer) td [] =
           Some (Inl (RuntimeError (''Failed to store embeddings: '' @ err_str e)),
                 [take 100 vd, take 100 (drop 100 vd)])"
    if "answer 0 (take 100 vd) = Inr r0" "answer 1 (take 100 (drop 100 vd)) = Inl e"
    using that
    by (intro store_250_second_raises[OF assms, where ?w1.0 = "[take 100 vd]" and ?r0.0 = r0])
       (simp_all add: scripted_adapter_def)
  from sizes all raise show ?thesis by blast
qed

theorem store_embeddings_250_witness:
  "length demo_items = 250
   \<and> embed_batch demo_gen demo_items = Inr (replicate 250 (''doc'', [0], []))
   \<and> store_embeddings demo_gen (scripted_adapter (\<lambda>n batch. Inr True)) demo_items [] =
       Some (Inr True, [replicate 100 (''doc'', [0], []), replicate 100 (''doc'', [0], []),
                        replicate 50 (''doc'', [0], [])])
   \<and> store_embeddings demo_gen (scripted_adapter demo_upsert_raising) demo_items [] =
       Some (Inl (RuntimeError
               ''Failed to store embeddings: Failed to upsert vectors: Storage Error''),
             [replicate 100 (''doc'', [0], []), replicate 100 (''doc'', [0], [])])"
proof -
  have len: "length demo_items = 250" by (simp add: demo_items_def)
  from store_embeddings_250[OF len demo_embed, of "\<lambda>n batch. Inr True" True True True]
    store_embeddings_250[OF len demo_embed, of demo_upsert_raising True _ _
      "RuntimeError ''Failed to upsert vectors: Storage Error''"]
    len demo_embed
  show ?thesis by (simp add: demo_upsert_raising_def)
qed

text \<open>
  C4 as it is written fails both ways a batch can fail without an exception
  reaching the loop. An adapter call that reports failure by returning \<open>False\<close>: the
  operation reports failure, but only after the third batch has been sent as well.
  The repository's adapter, when the index refuses the second batch once: the adapter
  sends that batch again, the third batch follows, and the operation reports
  success.
\<close>

theorem third_batch_sent_after_failed_second:
  "demo_upsert 1 (replicate 100 (''doc'', [0], [])) = Inr False
   \<and> store_embeddings demo_gen (scripted_adapter demo_upsert) demo_items [] =
       Some (Inr False, [replicate 100 (''doc'', [0], []), replicate 100 (''doc'', [0], []),
                         replicate 50 (''doc'', [0], [])])
   \<and> demo_index 1 (replicate 100 (''doc'', [0], [])) = Inl (ProviderError ''connection reset'')
   \<and> store_embeddings demo_gen (upsert_vectors demo_index 1) demo_items [] =
       Some (Inr True, [replicate 100 (''doc'', [0], []), replicate 100 (''doc'', [0], []),
                        replicate 100 (''doc'', [0], []), replicate 50 (''doc'', [0], [])])"
proof -
  let ?b = "replicate 100 (''doc'', [0::real], []::pydict)"
  let ?c = "replicate 50 (''doc'', [0::real], []::pydict)"
  have len: "length demo_items = 250" by (simp add: demo_items_def)
  have scripted: "store_embeddings demo_gen (scripted_adapter demo_upsert) demo_items [] =
       Some (Inr (True \<and> False \<and> True), [?b, ?b, ?c])"
    by (rule store_250_all_return[OF len demo_embed, where ?w1.0 = "[?b]" and ?w2.0 = "[?b, ?b]"])
       (simp_all add: scripted_adapter_def demo_upsert_def)
  have ok: "find (\<lambda>v. length (fst (snd v)) \<noteq> 1) (replicate n (''doc'', [0::real], []::pydict)) = None" for n
    by (induction n) simp_all
  have real: "store_embeddings demo_gen (upsert_vectors demo_index 1) demo_items [] =
       Some (Inr (True \<and> True \<and> True), [?b, ?b, ?b, ?c])"
  proof (rule store_250_all_return[OF len demo_embed, where ?w1.0 = "[?b]" and ?w2.0 = "[?b, ?b, ?b]"])
    show "upsert_vectors demo_index 1 [] (take 100 (replicate 250 (''doc'', [0], []))) =
            Some (Inr True, [?b])"
      using upsert_vectors_first_try[of 1 ?b demo_index "[]"] ok[of 100]
      by (simp add: demo_index_def)
    show "upsert_vectors demo_index 1 [?b] (take 100 (drop 100 (replicate 250 (''doc'', [0], [])))) =
            Some (Inr True, [?b, ?b, ?b])"
      using upsert_vectors_second_try[of 1 ?b demo_index "[?b]" "ProviderError ''connection reset''"]
        ok[of 100]
      by (simp add: demo_index_def)
    show "upsert_vectors demo_index 1 [?b, ?b, ?b] (drop 200 (replicate 250 (''doc'', [0], []))) =
            Some (Inr True, [?b, ?b, ?b, ?c])"
      using upsert_vectors_first_try[of 1 ?c demo_index "[?b, ?b, ?b]"] ok[of 50]
      by (simp add: demo_index_def)
  qed
  from scripted real show ?thesis by (simp add: demo_upsert_def demo_index_def)
qed

subsection \<open>Requests\<close>

lemma process_request_attempt_empty:
  "process_request_attempt svc (PStr []) ctx sc a =
     Some (Inl (RuntimeError ''Failed to process request: Invalid request format''), a)"
  by (simp add: process_request_attempt_def request_failed_def)

text \<open>
  C5 (the code departs from the claim). The empty request leaves the agent, its
  history included, as it was; but the \<open>ValueError\<close> raised for it is caught inside
  \<open>process_request\<close> and turned into \<open>RuntimeError\<close>, the decorator runs the body three
  times, and the caller gets tenacity's \<open>RetryError\<close>.
\<close>

theorem empty_request_error:
  "process_request svc_at (PStr []) ctx sc a =
     Some (Inl (RetryError (RuntimeError ''Failed to process request: Invalid request format'')), a)
   \<and> \<not> is_ValueError
         (RetryError (RuntimeError ''Failed to process request: Invalid request format''))"
  by (simp add: process_request_def stop_after_attempt_def numeral_3_eq_3
        process_request_attempt_empty)

theorem empty_request_error_witness:
  "process_request (\<lambda>k. demo_services) (PStr []) None None demo_agent =
     Some (Inl (RetryError (RuntimeError ''Failed to process request: Invalid request format'')),
           demo_agent)
   \<and> conversation_history demo_agent = []"
  using empty_request_error[of "\<lambda>k. demo_services" None None demo_agent]
  by (simp add: demo_agent_def new_agent_def)

subsection \<open>The agent state\<close>

lemma cleanup_state_never_returns: "cleanup_state a = None"
proof -
  have "cleanup_state a = Some y \<Longrightarrow> False" for y
    by (rule cleanup_state.raw_induct[where P = "\<lambda>a y. False"]) auto
  then show ?thesis by (cases "cleanup_state a") auto
qed

text \<open>
  C6 (the code departs from the claim). An update whose text is longer than 4096
  characters makes \<open>update_state\<close> await the cleanup loop, which has no exit, so the
  call never completes. Any other update is merged into the state as it is: nothing
  is ever removed from the state, whatever its size.
\<close>

theorem update_state_overflow:
  "(MAX_CONTEXT_LENGTH < length (py_str svc (PDict kvs)) \<longrightarrow>
      update_state svc a (PDict kvs) = None)
   \<and> (length (py_str svc (PDict kvs)) \<le> MAX_CONTEXT_LENGTH \<longrightarrow>
      update_state svc a (PDict kvs) =
        Some (True, a\<lparr>state := fold (\<lambda>kv. AList.update (fst kv) (snd kv)) kvs (state a)\<rparr>))"
  by (simp add: update_state_def cleanup_state_never_returns)

theorem update_state_overflow_witness:
  "MAX_CONTEXT_LENGTH < length (py_str demo_services (PDict [(''blob'', PStr (replicate 5000 CHR ''x''))]))
   \<and> update_state demo_services demo_agent (PDict [(''blob'', PStr (replicate 5000 CHR ''x''))]) = None
   \<and> update_state demo_services (demo_agent\<lparr>state := [(''a'', PStr (replicate 3000 CHR ''x''))]\<rparr>)
       (PDict [(''b'', PStr (replicate 3000 CHR ''y''))]) =
       Some (True, demo_agent\<lparr>state := [(''a'', PStr (replicate 3000 CHR ''x'')),
                                          (''b'', PStr (replicate 3000 CHR ''y''))]\<rparr>)
   \<and> MAX_CONTEXT_LENGTH < length (py_str demo_services
         (PDict [(''a'', PStr (replicate 3000 CHR ''x'')), (''b'', PStr (replicate 3000 CHR ''y''))]))"
  using update_state_overflow[of demo_services "[(''blob'', PStr (replicate 5000 CHR ''x''))]" demo_agent]
    update_state_overflow[of demo_services "[(''b'', PStr (replicate 3000 CHR ''y''))]"
      "demo_agent\<lparr>state := [(''a'', PStr (replicate 3000 CHR ''x''))]\<rparr>"]
  by (simp add: demo_services_def MAX_CONTEXT_LENGTH_def)

subsection \<open>The circuit breaker\<close>

lemma execute_skill_breaker:
  "circuit_breaker (snd (execute_skill svc a key inputs)) = circuit_breaker a"
  by (simp add: execute_skill_def store_skill_def split: option.splits prod.splits)

lemma after_calls_breaker: "circuit_breaker (after_calls a calls) = circuit_breaker a"
  by (induction a calls rule: after_calls.induct) (simp_all add: execute_skill_breaker)

text \<open>
  C1 (the code departs from the claim). \<open>execute_skill\<close> reads the breaker and never
  writes it: no call is wrapped by the breaker, so no failure is counted. After any
  series of calls the breaker is as it was, and a breaker that starts closed, as the
  constructor's does, is never opened: a fourth call after three failures executes
  the skill again.
\<close>

theorem breaker_never_opens:
  "circuit_breaker (after_calls a calls) = circuit_breaker a
   \<and> (breaker_state (circuit_breaker a) = STATE_CLOSED \<longrightarrow>
        \<not> opened (circuit_breaker (after_calls a calls)) t)"
  by (simp add: after_calls_breaker opened_def)

theorem breaker_never_opens_witness:
  "breaker_state (circuit_breaker demo_agent) = STATE_CLOSED
   \<and> fst (execute_skill demo_services demo_agent ''summarize'' []) = Inl (ProviderError ''timeout'')
   \<and> \<not> opened (circuit_breaker
         (after_calls demo_agent (replicate 3 (demo_services, ''summarize'', [])))) 0
   \<and> fst (execute_skill demo_services
            (after_calls demo_agent (replicate 3 (demo_services, ''summarize'', [])))
            ''summarize'' []) = Inl (ProviderError ''timeout'')
   \<and> map (execution_errors \<circ> snd)
        (skills (skill_registry (snd (execute_skill demo_services
            (after_calls demo_agent (replicate 3 (demo_services, ''summarize'', [])))
            ''summarize'' [])))) = [4]"
proof -
  have closed: "breaker_state (circuit_breaker demo_agent) = STATE_CLOSED"
    by (simp add: demo_agent_def new_agent_def)
  have step: "execute_skill demo_services
          (demo_agent\<lparr>skill_registry := demo_registry\<lparr>skills := [(''summarize'', demo_skill\<lparr>execution_errors := n\<rparr>)]\<rparr>\<rparr>)
          ''summarize'' [] =
        (Inl (ProviderError ''timeout''),
         demo_agent\<lparr>skill_registry := demo_registry\<lparr>skills := [(''summarize'', demo_skill\<lparr>execution_errors := Suc n\<rparr>)]\<rparr>\<rparr>)" for n
    by (simp add: execute_skill_def get_skill_def demo_agent_def new_agent_def demo_registry_def
          opened_def validate_inputs_def demo_services_def demo_skill_def execute_def
          execution_failed_def store_skill_def)
  have start: "demo_agent = demo_agent\<lparr>skill_registry := demo_registry\<lparr>skills := [(''summarize'', demo_skill\<lparr>execution_errors := 0\<rparr>)]\<rparr>\<rparr>"
    by (simp add: demo_agent_def demo_registry_def demo_skill_def)
  have three: "after_calls demo_agent (replicate 3 (demo_services, ''summarize'', [])) =
      demo_agent\<lparr>skill_registry := demo_registry\<lparr>skills := [(''summarize'', demo_skill\<lparr>execution_errors := 3\<rparr>)]\<rparr>\<rparr>"
    by (subst start) (simp add: numeral_3_eq_3 step)
  have first: "fst (execute_skill demo_services demo_agent ''summarize'' []) = Inl (ProviderError ''timeout'')"
    by (subst start) (simp add: step)
  from breaker_never_opens[of demo_agent "replicate 3 (demo_services, ''summarize'', [])" 0]
    closed first
  show ?thesis by (simp add: three step)
qed

end
